theory Spec2Isabelle
  imports Main "HOL-Library.Sublist" "HOL-Library.AList" "HOL-Library.Char_ord"
    "HOL-Library.List_Lexorder"
begin

section \<open>Strings\<close>

text \<open>
  Python \<open>str\<close> values are modelled as \<^typ>\<open>string\<close>; the files handled by the scripts
  are taken to be ASCII, so that one \<^typ>\<open>char\<close> is one code point. \<open>str.isspace\<close> holds
  on the ASCII range for tab, the line separators 10 to 13, the separators 28 to 31 and
  the blank.
\<close>

definition isspace :: "char \<Rightarrow> bool" where
  "isspace c = (of_char c \<in> {9::nat, 10, 11, 12, 13, 28, 29, 30, 31, 32})"

definition strip :: "string \<Rightarrow> string" where
  "strip s = rev (dropWhile isspace (rev (dropWhile isspace s)))"

definition startswith :: "string \<Rightarrow> string \<Rightarrow> bool" where
  "startswith s p = prefix p s"

text \<open>\<open>needle in hay\<close> on strings.\<close>

fun str_in :: "string \<Rightarrow> string \<Rightarrow> bool" where
  "str_in needle [] = (needle = [])"
| "str_in needle (c # cs) = (prefix needle (c # cs) \<or> str_in needle cs)"

text \<open>\<open>s.split(sep)\<close> for a one-character separator: never an empty list.\<close>

fun split_on :: "char \<Rightarrow> string \<Rightarrow> string list" where
  "split_on sep [] = [[]]"
| "split_on sep (c # cs) =
     (if c = sep then [] # split_on sep cs
      else (case split_on sep cs of [] \<Rightarrow> [[c]] | l # ls \<Rightarrow> (c # l) # ls))"

text \<open>
  Reading a file opened in text mode translates \<open>\r\n\<close> and a lone \<open>\r\<close> to \<open>\n\<close>
  (universal newlines); iterating over the file yields the lines with their
  terminating \<open>\n\<close>, the last one possibly without. Writing in text mode on POSIX
  leaves \<open>\n\<close> as it is.
\<close>

fun universal_newlines :: "string \<Rightarrow> string" where
  "universal_newlines [] = []"
| "universal_newlines [c] = [if c = CHR 0x0D then CHR 0x0A else c]"
| "universal_newlines (c # d # ds) =
     (if c = CHR 0x0D \<and> d = CHR 0x0A then CHR 0x0A # universal_newlines ds
      else if c = CHR 0x0D then CHR 0x0A # universal_newlines (d # ds)
      else c # universal_newlines (d # ds))"

fun readlines :: "string \<Rightarrow> string list" where
  "readlines [] = []"
| "readlines (c # cs) =
     (if c = CHR 0x0A then [c] # readlines cs
      else (case readlines cs of [] \<Rightarrow> [[c]] | l # ls \<Rightarrow> (c # l) # ls))"

text \<open>\<open>str(n)\<close> for a length.\<close>

function show_nat :: "nat \<Rightarrow> string" where
  "show_nat n =
     (if n < 10 then [char_of (48 + n)]
      else show_nat (n div 10) @ [char_of (48 + n mod 10)])"
  by pat_completeness auto

termination
  by (relation "measure (\<lambda>n. n)") auto

declare show_nat.simps [simp del]

section \<open>The file system\<close>

text \<open>
  A path is the list of its components below the root; a node is a regular file with
  its contents or a directory with its entries. Symbolic links, permissions and
  \<open>..\<close> components are outside the model. \<open>lookup\<close> is what \<open>Path.exists\<close>,
  \<open>os.path.exists\<close> and the opening of a file resolve.
\<close>

type_synonym path = "string list"

datatype node = File string | Dir "(string \<times> node) list"

datatype error =
    FileNotFoundError
  | NotADirectoryError
  | FileExistsError
  | IsADirectoryError
  | SystemExit nat

fun lookup :: "path \<Rightarrow> node \<Rightarrow> node option" where
  "lookup [] n = Some n"
| "lookup (c # cs) (File x) = None"
| "lookup (c # cs) (Dir es) =
     (case map_of es c of None \<Rightarrow> None | Some m \<Rightarrow> lookup cs m)"

text \<open>
  The error the operating system reports for a path that does not resolve: a regular
  file met on the way is \<open>ENOTDIR\<close>, a name that is not there is \<open>ENOENT\<close>. The
  existence tests take both for absence; the calls that open, list or enter the path
  raise the one or the other.
\<close>

fun missing_error :: "path \<Rightarrow> node \<Rightarrow> error" where
  "missing_error [] n = FileNotFoundError"
| "missing_error (c # cs) (File x) = NotADirectoryError"
| "missing_error (c # cs) (Dir es) =
     (case map_of es c of None \<Rightarrow> FileNotFoundError | Some m \<Rightarrow> missing_error cs m)"

text \<open>Unlinking the entry at a path (the root itself cannot be unlinked).\<close>

fun remove_tree :: "path \<Rightarrow> node \<Rightarrow> node" where
  "remove_tree [] n = n"
| "remove_tree (c # cs) (File x) = File x"
| "remove_tree [c] (Dir es) = Dir (AList.delete c es)"
| "remove_tree (c # cs) (Dir es) =
     (case map_of es c of
        None \<Rightarrow> Dir es
      | Some m \<Rightarrow> Dir (AList.update c (remove_tree cs m) es))"

text \<open>
  Installing a node at a path, creating the missing ancestors as directories
  (\<open>os.makedirs\<close>); an ancestor that is a regular file raises.
\<close>

fun place :: "path \<Rightarrow> node \<Rightarrow> node \<Rightarrow> error + node" where
  "place [] t n = Inr t"
| "place (c # cs) t (File x) = Inl NotADirectoryError"
| "place (c # cs) t (Dir es) =
     (case place cs t (case map_of es c of None \<Rightarrow> Dir [] | Some m \<Rightarrow> m) of
        Inl e \<Rightarrow> Inl e
      | Inr m' \<Rightarrow> Inr (Dir (AList.update c m' es)))"

text \<open>
  \<open>shutil.ignore_patterns(*pats)\<close> selects, in every directory visited, the names that
  \<open>fnmatch\<close> one of the patterns. The patterns the scripts pass contain none of
  \<open>*\<close>, \<open>?\<close>, \<open>[\<close>, for which \<open>fnmatch\<close> on POSIX is equality of names.
  \<open>copy_node\<close> is the tree \<open>shutil.copytree\<close> builds: ignored names are skipped before
  the recursion into the entries that remain.
\<close>

fun copy_node :: "string list \<Rightarrow> node \<Rightarrow> node" where
  "copy_node pats (File x) = File x"
| "copy_node pats (Dir es) =
     Dir (map (\<lambda>e. (fst e, copy_node pats (snd e))) (filter (\<lambda>e. fst e \<notin> set pats) es))"

text \<open>All entry names of a tree, at any depth.\<close>

fun names :: "node \<Rightarrow> string list" where
  "names (File x) = []"
| "names (Dir es) = concat (map (\<lambda>e. fst e # names (snd e)) es)"

definition show_path :: "path \<Rightarrow> string" where
  "show_path p = (if p = [] then ''/'' else concat (map (\<lambda>c. CHR ''/'' # c) p))"

text \<open>
  A relative path given as a string, as \<open>base / s\<close> of \<open>pathlib\<close> appends it: split
  at \<open>/\<close>, empty and \<open>.\<close> components dropped.
\<close>

definition rel :: "string \<Rightarrow> path" where
  "rel s = filter (\<lambda>c. c \<noteq> [] \<and> c \<noteq> ''.'') (split_on CHR ''/'' s)"

section \<open>Runs: state, output and exceptions\<close>

text \<open>
  The state of a run is the file system and the sequence of calls made so far to
  \<open>print\<close>, \<open>subprocess.check_call\<close>, \<open>Path.mkdir\<close>, \<open>shutil.rmtree\<close> and
  \<open>shutil.copytree\<close>, each recorded when it is made, and the entries into
  \<open>sync_directory\<close>. A computation returns a value or the exception it raised.
\<close>

datatype event =
    Print string
  | Check_call string path
  | Mkdir path
  | Rmtree path
  | Copytree path path
  | Enter_sync_directory string string

record state =
  fs :: node
  trace :: "event list"

type_synonym 'a run = "state \<Rightarrow> (error + 'a) \<times> state"

definition ret :: "'a \<Rightarrow> 'a run" where
  "ret a s = (Inr a, s)"

definition raise :: "error \<Rightarrow> 'a run" where
  "raise e s = (Inl e, s)"

definition bind_run :: "'a run \<Rightarrow> ('a \<Rightarrow> 'b run) \<Rightarrow> 'b run" where
  "bind_run m f s = (case m s of (Inl e, s') \<Rightarrow> (Inl e, s') | (Inr a, s') \<Rightarrow> f a s')"

definition emit :: "event \<Rightarrow> unit run" where
  "emit ev s = (Inr (), s\<lparr>trace := trace s @ [ev]\<rparr>)"

definition path_exists :: "path \<Rightarrow> bool run" where
  "path_exists p s = (Inr (lookup p (fs s) \<noteq> None), s)"

fun for_each :: "('a \<Rightarrow> unit run) \<Rightarrow> 'a list \<Rightarrow> unit run" where
  "for_each body [] = ret ()"
| "for_each body (x # xs) = bind_run (body x) (\<lambda>_. for_each body xs)"

text \<open>The exit status of the process: \<open>sys.exit(n)\<close>, an uncaught exception, or none.\<close>

definition exit_code :: "error + unit \<Rightarrow> nat" where
  "exit_code r = (case r of Inr _ \<Rightarrow> 0 | Inl (SystemExit n) \<Rightarrow> n | Inl _ \<Rightarrow> 1)"

section \<open>Library calls on the file system\<close>

text \<open>\<open>Path.mkdir(parents=True, exist_ok=True)\<close>.\<close>

definition mkdir_parents_exist_ok :: "path \<Rightarrow> unit run" where
  "mkdir_parents_exist_ok p =
     bind_run (emit (Mkdir p)) (\<lambda>_ s.
       case lookup p (fs s) of
         Some (Dir es) \<Rightarrow> (Inr (), s)
       | Some (File x) \<Rightarrow> (Inl FileExistsError, s)
       | None \<Rightarrow>
           (case place p (Dir []) (fs s) of
              Inl e \<Rightarrow> (Inl e, s)
            | Inr n \<Rightarrow> (Inr (), s\<lparr>fs := n\<rparr>)))"

text \<open>\<open>shutil.rmtree(p)\<close>: only a directory can be removed.\<close>

definition rmtree :: "path \<Rightarrow> unit run" where
  "rmtree p =
     bind_run (emit (Rmtree p)) (\<lambda>_ s.
       case lookup p (fs s) of
         None \<Rightarrow> (Inl (missing_error p (fs s)), s)
       | Some (File x) \<Rightarrow> (Inl NotADirectoryError, s)
       | Some (Dir es) \<Rightarrow> (Inr (), s\<lparr>fs := remove_tree p (fs s)\<rparr>))"

text \<open>
  \<open>shutil.copytree(src, dst, ignore=ignore_patterns(*pats))\<close>: the source is a directory,
  the destination does not exist yet and is created with its missing ancestors. The
  source is read as it is when the call is made, which is what the library does when
  neither path lies inside the other.
\<close>

definition copytree :: "path \<Rightarrow> path \<Rightarrow> string list \<Rightarrow> unit run" where
  "copytree src dst pats =
     bind_run (emit (Copytree src dst)) (\<lambda>_ s.
       case lookup src (fs s) of
         None \<Rightarrow> (Inl (missing_error src (fs s)), s)
       | Some (File x) \<Rightarrow> (Inl NotADirectoryError, s)
       | Some (Dir es) \<Rightarrow>
           (if lookup dst (fs s) \<noteq> None then (Inl FileExistsError, s)
            else (case place dst (copy_node pats (Dir es)) (fs s) of
                    Inl e \<Rightarrow> (Inl e, s)
                  | Inr n \<Rightarrow> (Inr (), s\<lparr>fs := n\<rparr>))))"

section \<open>The two update\_skill scripts\<close>

text \<open>
  The module constants of a script. \<open>USER_HOME\<close> and the directory of the script file
  come from the machine, so \<open>adk\<close> and \<open>a2ui\<close> take them as arguments.
\<close>

record script =
  tag :: string
  REPO_CACHE_PATH :: path
  SKILL_ROOT :: path
  OFFICIAL_REPO_URL :: string

definition CACHE_ROOT :: "path \<Rightarrow> path" where
  "CACHE_ROOT home = home @ [''.gemini'', ''jetski'', ''cache'', ''repos'']"

definition adk :: "path \<Rightarrow> path \<Rightarrow> script" where
  "adk home script_dir =
     \<lparr>tag = ''[ADK Global Update] '',
      REPO_CACHE_PATH = CACHE_ROOT home @ [''adk''],
      SKILL_ROOT = butlast script_dir,
      OFFICIAL_REPO_URL = ''https://github.com/google/adk-python.git''\<rparr>"

definition a2ui :: "path \<Rightarrow> path \<Rightarrow> script" where
  "a2ui home script_dir =
     \<lparr>tag = ''[A2UI Global Update] '',
      REPO_CACHE_PATH = CACHE_ROOT home @ [''a2ui''],
      SKILL_ROOT = butlast script_dir,
      OFFICIAL_REPO_URL = ''https://github.com/google/A2UI.git''\<rparr>"

definition adk_DIRECTORIES_TO_SYNC :: "string list" where
  "adk_DIRECTORIES_TO_SYNC = [''contributing/samples'']"

definition a2ui_DIRECTORIES_TO_SYNC :: "string list" where
  "a2ui_DIRECTORIES_TO_SYNC = [''specification'', ''docs'', ''renderers'', ''tools'']"

definition SAMPLES_MAPPING :: "(string \<times> string) list" where
  "SAMPLES_MAPPING =
     [(''samples/agent/adk/rizzcharts'', ''examples/agent/rizzcharts''),
      (''samples/agent/adk/contact_lookup'', ''examples/agent/contact_lookup''),
      (''samples/client/lit/shell'', ''examples/client/generic_shell'')]"

definition log :: "script \<Rightarrow> string \<Rightarrow> unit run" where
  "log sc msg = emit (Print (tag sc @ msg))"

text \<open>
  The external command: what running a shell command in a directory does to the file
  system, and whether it exits with status zero.
\<close>

type_synonym shell = "string \<Rightarrow> path \<Rightarrow> node \<Rightarrow> bool \<times> node"

text \<open>
  \<open>run_command\<close> catches \<open>CalledProcessError\<close> only; a working directory that is
  missing or is a regular file makes \<open>check_call\<close> raise before the command runs.
\<close>

definition run_command :: "script \<Rightarrow> shell \<Rightarrow> string \<Rightarrow> path \<Rightarrow> bool run" where
  "run_command sc sh cmd cwd =
     bind_run (emit (Check_call cmd cwd)) (\<lambda>_ s.
       case lookup cwd (fs s) of
         None \<Rightarrow> (Inl (missing_error cwd (fs s)), s)
       | Some (File x) \<Rightarrow> (Inl NotADirectoryError, s)
       | Some (Dir es) \<Rightarrow>
           (case sh cmd cwd (fs s) of
              (True, n) \<Rightarrow> (Inr True, s\<lparr>fs := n\<rparr>)
            | (False, n) \<Rightarrow>
                bind_run (log sc (''Command failed: '' @ cmd)) (\<lambda>_. ret False) (s\<lparr>fs := n\<rparr>)))"

definition clone_cmd :: "script \<Rightarrow> string" where
  "clone_cmd sc = ''git clone '' @ OFFICIAL_REPO_URL sc @ '' .''"

definition adk_ensure_repo_updated :: "script \<Rightarrow> shell \<Rightarrow> bool run" where
  "adk_ensure_repo_updated sc sh =
     bind_run (path_exists (REPO_CACHE_PATH sc)) (\<lambda>ex.
       if \<not> ex then
         bind_run (log sc (''Repo cache not found. Cloning from '' @ OFFICIAL_REPO_URL sc
                     @ '' to '' @ show_path (REPO_CACHE_PATH sc) @ ''...'')) (\<lambda>_.
         bind_run (mkdir_parents_exist_ok (REPO_CACHE_PATH sc)) (\<lambda>_.
         bind_run (run_command sc sh (clone_cmd sc) (REPO_CACHE_PATH sc)) (\<lambda>ok.
           if ok then bind_run (log sc ''Cloning successful.'') (\<lambda>_. ret True)
           else bind_run (log sc
                  ''Cloning failed. Please check your internet connection or git configuration.'')
                  (\<lambda>_. ret False))))
       else
         bind_run (log sc (''Repo cache found at '' @ show_path (REPO_CACHE_PATH sc)
                     @ ''. Pulling latest changes...'')) (\<lambda>_.
         bind_run (path_exists (REPO_CACHE_PATH sc @ [''.git''])) (\<lambda>is_repo.
           if \<not> is_repo then
             bind_run (log sc ''Cache directory exists but is not a git repo. Re-cloning...'') (\<lambda>_.
             bind_run (rmtree (REPO_CACHE_PATH sc)) (\<lambda>_.
             bind_run (mkdir_parents_exist_ok (REPO_CACHE_PATH sc)) (\<lambda>_.
               run_command sc sh (clone_cmd sc) (REPO_CACHE_PATH sc))))
           else
             bind_run (run_command sc sh ''git pull'' (REPO_CACHE_PATH sc)) (\<lambda>ok.
               if ok then bind_run (log sc ''Git pull successful.'') (\<lambda>_. ret True)
               else bind_run (log sc
                      ''Git pull failed. Attempting to proceed with existing cache.'')
                      (\<lambda>_. ret True)))))"

definition a2ui_ensure_repo_updated :: "script \<Rightarrow> shell \<Rightarrow> bool run" where
  "a2ui_ensure_repo_updated sc sh =
     bind_run (path_exists (REPO_CACHE_PATH sc)) (\<lambda>ex.
       if \<not> ex then
         bind_run (log sc (''Repo cache not found. Cloning from '' @ OFFICIAL_REPO_URL sc
                     @ '' to '' @ show_path (REPO_CACHE_PATH sc) @ ''...'')) (\<lambda>_.
         bind_run (mkdir_parents_exist_ok (REPO_CACHE_PATH sc)) (\<lambda>_.
         bind_run (run_command sc sh (clone_cmd sc) (REPO_CACHE_PATH sc)) (\<lambda>ok.
           if ok then bind_run (log sc ''Cloning successful.'') (\<lambda>_. ret True)
           else bind_run (log sc
                  ''Cloning failed. Please check your internet connection or git configuration.'')
                  (\<lambda>_. ret False))))
       else
         bind_run (log sc (''Repo cache found at '' @ show_path (REPO_CACHE_PATH sc)
                     @ ''. Pulling latest changes...'')) (\<lambda>_.
         bind_run (run_command sc sh ''git pull'' (REPO_CACHE_PATH sc)) (\<lambda>ok.
           if ok then bind_run (log sc ''Git pull successful.'') (\<lambda>_. ret True)
           else bind_run (log sc
                  ''Git pull failed. Attempting to proceed with existing cache.'')
                  (\<lambda>_. ret True))))"

text \<open>\<open>sync_directory\<close> is the same function in both scripts.\<close>

definition ignore_names :: "string list" where
  "ignore_names = [''node_modules'', ''.git'', ''__pycache__'', ''.DS_Store'']"

definition sync_directory :: "script \<Rightarrow> string \<Rightarrow> string \<Rightarrow> bool \<Rightarrow> unit run" where
  "sync_directory sc src_rel dest_rel exclude_node_modules =
     (let src = REPO_CACHE_PATH sc @ rel src_rel;
          dest = SKILL_ROOT sc @ rel dest_rel
      in bind_run (emit (Enter_sync_directory src_rel dest_rel)) (\<lambda>_.
         bind_run (path_exists src) (\<lambda>src_exists.
           if \<not> src_exists then
             log sc (''Warning: Source '' @ show_path src @ '' does not exist in repo. Skipping.'')
           else
             bind_run (log sc (''Syncing '' @ src_rel @ '' -> '' @ dest_rel @ ''...'')) (\<lambda>_.
             bind_run (path_exists dest) (\<lambda>dest_exists.
             bind_run (if dest_exists then rmtree dest else ret ()) (\<lambda>_.
               copytree src dest (if exclude_node_modules then ignore_names else [])))))))"

definition adk_main :: "script \<Rightarrow> shell \<Rightarrow> unit run" where
  "adk_main sc sh =
     bind_run (log sc ''Starting Global ADK Skill Self-Update...'') (\<lambda>_.
     bind_run (log sc (''Skill Root: '' @ show_path (SKILL_ROOT sc))) (\<lambda>_.
     bind_run (adk_ensure_repo_updated sc sh) (\<lambda>ok.
       if \<not> ok then
         bind_run (log sc
           ''Critical Error: Could not update reference repository. Aborting sync.'')
           (\<lambda>_. raise (SystemExit 1))
       else
         bind_run (for_each
           (\<lambda>d. sync_directory sc d (if str_in ''samples'' d then ''examples'' else d) True)
           adk_DIRECTORIES_TO_SYNC) (\<lambda>_.
         bind_run (path_exists (REPO_CACHE_PATH sc @ rel ''docs'')) (\<lambda>has_docs.
         bind_run (if has_docs then sync_directory sc ''docs'' ''docs'' True else ret ()) (\<lambda>_.
           log sc ''Global Update complete. Skill is synchronized.''))))))"

definition a2ui_main :: "script \<Rightarrow> shell \<Rightarrow> unit run" where
  "a2ui_main sc sh =
     bind_run (log sc ''Starting Global A2UI Skill Self-Update...'') (\<lambda>_.
     bind_run (log sc (''Skill Root: '' @ show_path (SKILL_ROOT sc))) (\<lambda>_.
     bind_run (a2ui_ensure_repo_updated sc sh) (\<lambda>ok.
       if \<not> ok then
         bind_run (log sc
           ''Critical Error: Could not update reference repository. Aborting sync.'')
           (\<lambda>_. raise (SystemExit 1))
       else
         bind_run (for_each (\<lambda>d. sync_directory sc d d True) a2ui_DIRECTORIES_TO_SYNC) (\<lambda>_.
         bind_run (for_each (\<lambda>m. sync_directory sc (fst m) (snd m) True) SAMPLES_MAPPING) (\<lambda>_.
           log sc ''Global Update complete. Skill is synchronized.'')))))"

section \<open>The prepare\_agent script\<close>

abbreviation NL :: string where
  "NL \<equiv> [CHR 0x0A]"

abbreviation QUOTE :: string where
  "QUOTE \<equiv> [CHR 0x27]"

text \<open>
  What the script takes from outside the target directory: the output of the
  \<open>gcloud\<close> call (none when it raises), whether \<open>vertexai\<close> can be imported, and how
  the call of the hosted model ends.
\<close>

datatype llm_outcome = Import_error string | Call_error string | Response string

record llm_world =
  gcloud_project :: "string option"
  vertexai_importable :: bool
  generate_content :: llm_outcome

definition get_project_id :: "llm_world \<Rightarrow> string option" where
  "get_project_id w = map_option strip (gcloud_project w)"

text \<open>The value of \<open>get_llm_ignores\<close> is a set; it is kept as the list of its members.\<close>

definition clean_lines :: "string \<Rightarrow> string list" where
  "clean_lines response =
     filter (\<lambda>line. \<not> startswith line ''```'')
       (map strip (filter (\<lambda>line. strip line \<noteq> []) (split_on CHR 0x0A (strip response))))"

definition get_llm_ignores :: "llm_world \<Rightarrow> string list \<Rightarrow> string \<Rightarrow> string list run" where
  "get_llm_ignores w files project_id =
     (case generate_content w of
        Import_error msg \<Rightarrow>
          bind_run (emit (Print (''[WARN] Failed to use LLM for ignore analysis: '' @ msg)))
            (\<lambda>_. ret [])
      | Call_error msg \<Rightarrow>
          bind_run (emit (Print (''Connecting to Vertex AI (Project: '' @ project_id @ '')...'')))
            (\<lambda>_.
          bind_run (emit (Print (''[WARN] Failed to use LLM for ignore analysis: '' @ msg)))
            (\<lambda>_. ret []))
      | Response text \<Rightarrow>
          bind_run (emit (Print (''Connecting to Vertex AI (Project: '' @ project_id @ '')...'')))
            (\<lambda>_.
          bind_run (emit (Print (''[AI] Recommended ''
            @ show_nat (length (clean_lines text)) @ '' exclusions.'')))
            (\<lambda>_. ret (clean_lines text))))"

text \<open>\<open>open(p, "r")\<close> and reading; \<open>open(p, "a")\<close> and writing \<open>data\<close>.\<close>

definition read_text :: "path \<Rightarrow> string run" where
  "read_text p s =
     (case lookup p (fs s) of
        None \<Rightarrow> (Inl (missing_error p (fs s)), s)
      | Some (Dir es) \<Rightarrow> (Inl IsADirectoryError, s)
      | Some (File c) \<Rightarrow> (Inr (universal_newlines c), s))"

definition install :: "path \<Rightarrow> node \<Rightarrow> unit run" where
  "install p t s =
     (case place p t (fs s) of Inl e \<Rightarrow> (Inl e, s) | Inr n \<Rightarrow> (Inr (), s\<lparr>fs := n\<rparr>))"

definition append_text :: "path \<Rightarrow> string \<Rightarrow> unit run" where
  "append_text p data s =
     (case lookup p (fs s) of
        Some (Dir es) \<Rightarrow> (Inl IsADirectoryError, s)
      | Some (File c) \<Rightarrow> install p (File (c @ data)) s
      | None \<Rightarrow>
          (case lookup (butlast p) (fs s) of
             None \<Rightarrow> (Inl (missing_error (butlast p) (fs s)), s)
           | Some (File x) \<Rightarrow> (Inl NotADirectoryError, s)
           | Some (Dir es) \<Rightarrow> install p (File data) s))"

text \<open>
  \<open>os.listdir\<close> under \<open>except FileNotFoundError\<close>: none when the call raises that
  error; \<open>NotADirectoryError\<close>, for a regular file or a path below one, is not caught.
\<close>

definition listdir_or_missing :: "path \<Rightarrow> string list option run" where
  "listdir_or_missing p s =
     (case lookup p (fs s) of
        None \<Rightarrow>
          (if missing_error p (fs s) = FileNotFoundError then (Inr None, s)
           else (Inl (missing_error p (fs s)), s))
      | Some (File x) \<Rightarrow> (Inl NotADirectoryError, s)
      | Some (Dir es) \<Rightarrow> (Inr (Some (remdups (map fst es))), s))"

subsection \<open>1. The exclusion file\<close>

definition baseline_ignores :: "string list" where
  "baseline_ignores =
     [''__pycache__'', ''*.pyc'', ''.git'', ''.venv'', ''deploy'', ''.ds_store'',
      ''.terraform'', ''.terraform.lock.hcl'', ''venv'', ''env'', ''.idea'', ''.vscode'',
      ''*.zip'', ''*.pkl'', ''schema.json'']"

definition llm_suggestions :: "llm_world \<Rightarrow> string list \<Rightarrow> string list run" where
  "llm_suggestions w files =
     (case get_project_id w of
        None \<Rightarrow>
          bind_run (emit (Print ''[INFO] No active GCP project found. Using standard rules.''))
            (\<lambda>_. ret [])
      | Some project_id \<Rightarrow>
          if project_id = [] then
            bind_run (emit (Print ''[INFO] No active GCP project found. Using standard rules.''))
              (\<lambda>_. ret [])
          else if \<not> vertexai_importable w then
            bind_run (emit (Print
              (''[INFO] '' @ QUOTE @ ''vertexai'' @ QUOTE @ '' library not found. ''
               @ ''Using standard rules. ''
               @ ''(Pip install google-cloud-aiplatform for AI features)'')))
              (\<lambda>_. ret [])
          else get_llm_ignores w files project_id)"

definition parse_ignores :: "string \<Rightarrow> string list" where
  "parse_ignores content =
     map strip (filter (\<lambda>line. strip line \<noteq> [] \<and> \<not> startswith line ''#'') (readlines content))"

definition ignore_block :: "string list \<Rightarrow> string list \<Rightarrow> string" where
  "ignore_block current_ignores missing_ignores =
     (if current_ignores \<noteq> [] then NL else [])
     @ ''# Added by Agent Engine Deployer Skill (Hybrid Analysis)'' @ NL
     @ concat (map (\<lambda>item. item @ NL) (sort missing_ignores))"

definition ignore_step :: "string list \<Rightarrow> path \<Rightarrow> unit run" where
  "ignore_step llm_ignores agent_dir =
     (let ignore_path = agent_dir @ [''.ae_ignore''];
          final_ignores = baseline_ignores @ llm_ignores
      in bind_run (path_exists ignore_path) (\<lambda>ex.
         bind_run (if ex then bind_run (read_text ignore_path) (\<lambda>content.
                               ret (parse_ignores content))
                   else ret []) (\<lambda>current_ignores.
           let missing_ignores =
                 remdups (filter (\<lambda>item. item \<notin> set current_ignores) final_ignores)
           in if missing_ignores \<noteq> [] then
                bind_run (emit (Print (''Adding '' @ show_nat (length missing_ignores)
                            @ '' patterns to .ae_ignore...''))) (\<lambda>_.
                  append_text ignore_path (ignore_block current_ignores missing_ignores))
              else emit (Print ''.ae_ignore is already up to date.''))))"

subsection \<open>2. The requirements file\<close>

definition mandatory_dep :: string where
  "mandatory_dep = ''google-cloud-aiplatform[agent_engines,adk]''"

definition dep_block :: string where
  "dep_block = NL @ ''# Mandatory for Agent Engine'' @ NL @ mandatory_dep @ NL"

definition requirements_step :: "path \<Rightarrow> unit run" where
  "requirements_step agent_dir =
     (let req_path = agent_dir @ [''requirements.txt'']
      in bind_run (path_exists req_path) (\<lambda>ex.
         bind_run (if ex then bind_run (read_text req_path) (\<lambda>content.
                               ret (str_in ''google-cloud-aiplatform'' content
                                    \<and> str_in ''agent_engines'' content))
                   else ret False) (\<lambda>has_dep.
           if \<not> has_dep then
             bind_run (emit (Print (''Adding mandatory dependency '' @ QUOTE @ mandatory_dep
                         @ QUOTE @ '' to requirements.txt...''))) (\<lambda>_.
               append_text req_path dep_block)
           else emit (Print ''requirements.txt already correctly configured.''))))"

subsection \<open>3. The environment file\<close>

definition telemetry_vars :: "(string \<times> string) list" where
  "telemetry_vars =
     [(''GOOGLE_CLOUD_AGENT_ENGINE_ENABLE_TELEMETRY'', ''true''),
      (''OTEL_INSTRUMENTATION_GENAI_CAPTURE_MESSAGE_CONTENT'', ''true'')]"

definition env_line :: "string \<Rightarrow> (string \<rightharpoonup> string) \<Rightarrow> (string \<rightharpoonup> string)" where
  "env_line line existing_vars =
     (if str_in ''='' line \<and> \<not> startswith (strip line) ''#'' then
        existing_vars(strip (takeWhile (\<lambda>c. c \<noteq> CHR ''='') line) \<mapsto>
                      strip (tl (dropWhile (\<lambda>c. c \<noteq> CHR ''='') line)))
      else existing_vars)"

definition parse_env :: "string \<Rightarrow> (string \<rightharpoonup> string)" where
  "parse_env content = fold env_line (readlines content) Map.empty"

definition env_block :: "(string \<times> string) list \<Rightarrow> string" where
  "env_block new_vars =
     NL @ ''# Added by Agent Engine Deployer Skill'' @ NL
     @ concat (map (\<lambda>kv. fst kv @ ''='' @ snd kv @ NL) new_vars)"

definition env_step :: "path \<Rightarrow> unit run" where
  "env_step agent_dir =
     (let env_path = agent_dir @ [''.env'']
      in bind_run (path_exists env_path) (\<lambda>ex.
         bind_run (if ex then bind_run (read_text env_path) (\<lambda>content.
                               ret (parse_env content))
                   else ret Map.empty) (\<lambda>existing_vars.
           let new_vars = filter (\<lambda>kv. existing_vars (fst kv) = None) telemetry_vars
           in if new_vars \<noteq> [] then
                bind_run (emit (Print (''Adding '' @ show_nat (length new_vars)
                            @ '' telemetry variables to .env...''))) (\<lambda>_.
                  append_text env_path (env_block new_vars))
              else emit (Print ''.env is already correctly configured.''))))"

definition prepare_agent :: "llm_world \<Rightarrow> path \<Rightarrow> unit run" where
  "prepare_agent w agent_dir =
     bind_run (emit (Print (''Preparing agent in: '' @ show_path agent_dir))) (\<lambda>_.
     bind_run (listdir_or_missing agent_dir) (\<lambda>listing.
       case listing of
         None \<Rightarrow>
           emit (Print (''Error: Directory '' @ QUOTE @ show_path agent_dir @ QUOTE
                        @ '' not found.''))
       | Some files \<Rightarrow>
           bind_run (llm_suggestions w files) (\<lambda>llm_ignores.
           bind_run (ignore_step llm_ignores agent_dir) (\<lambda>_.
           bind_run (requirements_step agent_dir) (\<lambda>_.
           bind_run (env_step agent_dir) (\<lambda>_.
             emit (Print (NL @ ''[SUCCESS] Agent is ready for deployment configuration!''))))))))"

section \<open>Observing a run\<close>

text \<open>A run starts with nothing printed and no call made.\<close>

definition start :: "node \<Rightarrow> state" where
  "start n = \<lparr>fs = n, trace = []\<rparr>"

fun is_check_call :: "event \<Rightarrow> bool" where
  "is_check_call (Check_call cmd cwd) = True"
| "is_check_call e = False"

fun is_enter_sync :: "event \<Rightarrow> bool" where
  "is_enter_sync (Enter_sync_directory src_rel dest_rel) = True"
| "is_enter_sync e = False"

text \<open>A computation that only adds events satisfying \<open>P\<close> to the trace.\<close>

definition emits :: "(event \<Rightarrow> bool) \<Rightarrow> 'a run \<Rightarrow> bool" where
  "emits P m = (\<forall>s. \<exists>evs. trace (snd (m s)) = trace s @ evs \<and> list_all P evs)"

text \<open>Every regular file of the first file system is in the second, with text added at its end only.\<close>

definition appended_only :: "node \<Rightarrow> node \<Rightarrow> bool" where
  "appended_only n n' =
     (\<forall>q c. lookup q n = Some (File c) \<longrightarrow> (\<exists>suffix. lookup q n' = Some (File (c @ suffix))))"

text \<open>A computation after which every regular file has at most grown at its end.\<close>

definition only_appends :: "'a run \<Rightarrow> bool" where
  "only_appends m = (\<forall>s. appended_only (fs s) (fs (snd (m s))))"

text \<open>The file system after a \<open>place\<close> that succeeds.\<close>

definition put :: "path \<Rightarrow> node \<Rightarrow> node \<Rightarrow> node" where
  "put p t n = (case place p t n of Inl e \<Rightarrow> n | Inr n' \<Rightarrow> n')"

text \<open>The text of the regular file at a path.\<close>

definition file_text :: "path \<Rightarrow> state \<Rightarrow> string" where
  "file_text p s = (case lookup p (fs s) of Some (File c) \<Rightarrow> c | _ \<Rightarrow> [])"

text \<open>Messages of the cache managers and of the dependency step.\<close>

definition not_found_msg :: "script \<Rightarrow> string" where
  "not_found_msg sc = tag sc @ ''Repo cache not found. Cloning from '' @ OFFICIAL_REPO_URL sc
                     @ '' to '' @ show_path (REPO_CACHE_PATH sc) @ ''...''"

definition found_msg :: "script \<Rightarrow> string" where
  "found_msg sc = tag sc @ ''Repo cache found at '' @ show_path (REPO_CACHE_PATH sc)
                    @ ''. Pulling latest changes...''"

definition adding_dep_msg :: string where
  "adding_dep_msg = ''Adding mandatory dependency '' @ QUOTE @ mandatory_dep
                         @ QUOTE @ '' to requirements.txt...''"

text \<open>
  What a run of \<open>main\<close> that starts without a cache directory must look like: one
  command, the clone, when the directory can be made, and then no synchronisation after
  a failed clone; no command and no synchronisation when making the directory raises.
\<close>

definition absent_cache_outcome :: "script \<Rightarrow> shell \<Rightarrow> node \<Rightarrow> (error + unit) \<times> state \<Rightarrow> bool" where
  "absent_cache_outcome sc sh n out =
     ((\<forall>n1. place (REPO_CACHE_PATH sc) (Dir []) n = Inr n1 \<longrightarrow>
         filter is_check_call (trace (snd out)) = [Check_call (clone_cmd sc) (REPO_CACHE_PATH sc)]
         \<and> (\<not> fst (sh (clone_cmd sc) (REPO_CACHE_PATH sc) n1) \<longrightarrow>
              fst out = Inl (SystemExit 1) \<and> exit_code (fst out) = 1
              \<and> filter is_enter_sync (trace (snd out)) = []))
      \<and> (\<forall>e. place (REPO_CACHE_PATH sc) (Dir []) n = Inl e \<longrightarrow>
            filter is_check_call (trace (snd out)) = []
            \<and> exit_code (fst out) = 1
            \<and> filter is_enter_sync (trace (snd out)) = []))"

section \<open>Example inputs\<close>

text \<open>Shells in which every command fails, or succeeds, and changes nothing.\<close>

definition always_fails :: shell where
  "always_fails cmd cwd n = (False, n)"

definition always_succeeds :: shell where
  "always_succeeds cmd cwd n = (True, n)"

text \<open>The directories leading to a node.\<close>

fun tree_at :: "path \<Rightarrow> node \<Rightarrow> node" where
  "tree_at [] t = t"
| "tree_at (c # cs) t = Dir [(c, tree_at cs t)]"

text \<open>The two scripts for a home directory \<open>/home\<close> and a skill folder \<open>/skill\<close>.\<close>

definition example_script :: script where
  "example_script = adk [''home''] [''skill'', ''scripts'']"

definition example_a2ui :: script where
  "example_a2ui = a2ui [''home''] [''skill'', ''scripts'']"

text \<open>
  A cloned cache with documentation to synchronise over an older copy; a cache path
  blocked by a regular file; a cache directory that is not a working copy; a skill
  folder in which a destination is a regular file.
\<close>

definition example_fs :: node where
  "example_fs = Dir [(''home'', tree_at [''.gemini'', ''jetski'', ''cache'', ''repos'', ''adk'']
                   (Dir [(''.git'', Dir [(''HEAD'', File ''ref'')]),
                         (''docs'', Dir [(''a.md'', File ''A''),
                                         (''node_modules'', Dir [(''m.js'', File ''M'')]),
                                         (''sub'', Dir [(''.DS_Store'', File ''D''), (''b.md'', File ''B'')])])])),
                (''skill'', Dir [(''scripts'', Dir []), (''docs'', Dir [(''old.md'', File ''O'')])])]"

definition blocked_fs :: node where
  "blocked_fs = Dir [(''home'', Dir [(''.gemini'', File [])])]"

definition invalid_cache_fs :: "string \<Rightarrow> node" where
  "invalid_cache_fs name =
     Dir [(''home'', tree_at [''.gemini'', ''jetski'', ''cache'', ''repos'', name]
                       (Dir [(''notes.txt'', File ''x'')]))]"

definition unsyncable_fs :: node where
  "unsyncable_fs =
     Dir [(''home'', tree_at [''.gemini'', ''jetski'', ''cache'', ''repos'', ''a2ui'']
                       (Dir [(''.git'', Dir []), (''specification'', Dir [])])),
          (''skill'', Dir [(''scripts'', Dir []), (''specification'', File ''x'')])]"

text \<open>The state in which a first run on an empty file system ends when the clone fails.\<close>

definition after_failed_clone :: state where
  "after_failed_clone = snd (adk_ensure_repo_updated example_script always_fails (start (Dir [])))"

text \<open>No project configured, so that the model is never asked.\<close>

definition no_llm :: llm_world where
  "no_llm = \<lparr>gcloud_project = None, vertexai_importable = False,
             generate_content = Call_error ''unreachable''\<rparr>"

text \<open>Target directories: an empty one, and one with an environment file of its own.\<close>

definition empty_agent_fs :: node where
  "empty_agent_fs = Dir [(''agent'', Dir [])]"

definition custom_env :: string where
  "custom_env = ''# local settings'' @ NL @ ''GOOGLE_CLOUD_AGENT_ENGINE_ENABLE_TELEMETRY = false''"

definition custom_env_fs :: node where
  "custom_env_fs = Dir [(''agent'', Dir [(''.env'', File custom_env)])]"

text \<open>A requirements text with the two substrings on different lines, one in a comment.\<close>

definition split_requirements :: string where
  "split_requirements = ''agent_engines'' @ NL @ ''# google-cloud-aiplatform''"

text \<open>Two runs of the exclusion step in succession, with the same suggestion.\<close>

definition first_ignore_run :: state where
  "first_ignore_run = snd (ignore_step [''#notes.py#''] [''agent''] (start empty_agent_fs))"

definition second_ignore_run :: state where
  "second_ignore_run = snd (ignore_step [''#notes.py#''] [''agent''] first_ignore_run)"

text \<open>
  A skill folder of the ADK script in which the first destination is a regular file; a
  cache path that is a regular file; a target directory whose ignore file is a directory.
\<close>

definition adk_unsyncable_fs :: node where
  "adk_unsyncable_fs =
     Dir [(''home'', tree_at [''.gemini'', ''jetski'', ''cache'', ''repos'', ''adk'']
                       (Dir [(''.git'', Dir []),
                             (''contributing'', Dir [(''samples'', Dir [])])])),
          (''skill'', Dir [(''scripts'', Dir []), (''examples'', File ''x'')])]"

definition cache_is_file_fs :: node where
  "cache_is_file_fs =
     Dir [(''home'', tree_at [''.gemini'', ''jetski'', ''cache'', ''repos'']
                       (Dir [(''adk'', File [])]))]"

definition ignore_is_directory_fs :: node where
  "ignore_is_directory_fs = Dir [(''agent'', Dir [(''.ae_ignore'', Dir [])])]"

section \<open>Properties of the file system\<close>

lemma lookup_place: "place p t n = Inr n' \<Longrightarrow> lookup p n' = Some t"
  by (induction p t n arbitrary: n' rule: place.induct)
     (auto split: sum.splits option.splits simp: update_conv')

lemma lookup_Dir_Nil: "q \<noteq> [] \<Longrightarrow> lookup q (Dir []) = None"
  by (cases q) auto

lemma lookup_File: "r \<noteq> [] \<Longrightarrow> lookup r (File x) = None"
  by (cases r) auto

lemma lookup_place_frame:
  "place p t n = Inr n' \<Longrightarrow> \<not> prefix p q \<Longrightarrow> \<not> prefix q p \<Longrightarrow> lookup q n' = lookup q n"
proof (induction p t n arbitrary: n' q rule: place.induct)
  case (1 t n)
  then show ?case by simp
next
  case (2 c cs t x)
  then show ?case by simp
next
  case (3 c cs t es)
  from "3.prems" obtain d ds where q: "q = d # ds" by (cases q) auto
  let ?sub = "case map_of es c of None \<Rightarrow> Dir [] | Some m \<Rightarrow> m"
  from "3.prems"(1) obtain m' where m': "place cs t ?sub = Inr m'"
    and n': "n' = Dir (AList.update c m' es)"
    by (auto split: sum.splits)
  show ?case
  proof (cases "d = c")
    case False
    then show ?thesis using q n' by (simp add: update_conv')
  next
    case True
    with "3.prems" q have np: "\<not> prefix cs ds" "\<not> prefix ds cs" by auto
    then have "ds \<noteq> []" by auto
    have "lookup ds m' = lookup ds ?sub" using "3.IH"[OF m' np] .
    then show ?thesis using q n' True \<open>ds \<noteq> []\<close>
      by (auto simp: update_conv' lookup_Dir_Nil split: option.splits)
  qed
qed

lemma lookup_remove_tree_frame:
  "\<not> prefix p q \<Longrightarrow> \<not> prefix q p \<Longrightarrow> lookup q (remove_tree p n) = lookup q n"
proof (induction p n arbitrary: q rule: remove_tree.induct)
  case (1 n)
  then show ?case by simp
next
  case (2 c cs x)
  then show ?case by simp
next
  case (3 c es)
  then show ?case by (cases q) (auto simp: delete_conv')
next
  case (4 c v va es)
  then show ?case by (cases q) (auto simp: update_conv' split: option.splits)
qed

lemma lookup_append:
  "lookup (p @ q) n = (case lookup p n of None \<Rightarrow> None | Some m \<Rightarrow> lookup q m)"
  by (induction p n rule: lookup.induct) (auto split: option.splits)

lemma missing_error_child:
  "lookup p n = Some (Dir es) \<Longrightarrow> map_of es c = None \<Longrightarrow>
   missing_error (p @ [c]) n = FileNotFoundError"
  by (induction p n rule: lookup.induct) (auto split: option.splits)

lemma missing_in_directory:
  "lookup p n = Some (Dir es) \<Longrightarrow> map_of es c = None \<Longrightarrow>
   lookup (p @ c # r) n = None \<and> missing_error (p @ c # r) n = FileNotFoundError"
  by (induction p n rule: lookup.induct) (auto split: option.splits)

lemma missing_below_file:
  "lookup p n = Some (File x) \<Longrightarrow> r \<noteq> [] \<Longrightarrow>
   lookup (p @ r) n = None \<and> missing_error (p @ r) n = NotADirectoryError"
  by (induction p n rule: lookup.induct) (auto split: option.splits simp: neq_Nil_conv)

lemma lookup_child:
  "lookup p n = Some (Dir es) \<Longrightarrow> lookup (p @ [c]) n = map_of es c"
  by (simp add: lookup_append split: option.splits)

lemma git_dir_parent:
  "lookup (p @ [c]) n \<noteq> None \<Longrightarrow> \<exists>es. lookup p n = Some (Dir es)"
  by (cases "lookup p n"; simp add: lookup_append; rename_tac m; case_tac m; simp)

lemma map_of_copy_entries:
  "map_of (map (\<lambda>e. (fst e, f (snd e))) (filter (\<lambda>e. fst e \<notin> P) es)) c
     = (if c \<in> P then None else map_option f (map_of es c))"
  by (induction es) auto

lemma lookup_copy_node:
  "lookup q (copy_node pats n)
     = (if set q \<inter> set pats = {} then map_option (copy_node pats) (lookup q n) else None)"
proof (induction q n rule: lookup.induct)
  case (1 n)
  then show ?case by simp
next
  case (2 c cs x)
  then show ?case by simp
next
  case (3 c cs es)
  show ?case
  proof (cases "map_of es c")
    case None
    then show ?thesis by (simp add: map_of_copy_entries)
  next
    case (Some m)
    then show ?thesis using "3.IH"[OF Some] by (auto simp: map_of_copy_entries)
  qed
qed

lemma names_copy_node: "set (names (copy_node pats n)) \<inter> set pats = {}"
  by (induction pats n rule: copy_node.induct) auto

lemma place_existing: "lookup p n = Some x \<Longrightarrow> \<exists>n'. place p t n = Inr n'"
  by (induction p n rule: lookup.induct) (auto split: option.splits sum.splits)

lemma place_child: "lookup p n = Some (Dir es) \<Longrightarrow> \<exists>n'. place (p @ [c]) t n = Inr n'"
  by (induction p n rule: lookup.induct) (auto split: option.splits sum.splits)

lemma place_error: "place p t n = Inl e \<Longrightarrow> e = NotADirectoryError"
  by (induction p t n rule: place.induct) (auto split: sum.splits)

lemma place_put_existing: "lookup p n = Some x \<Longrightarrow> place p t n = Inr (put p t n)"
  using place_existing[of p n x t] by (auto simp: put_def)

lemma place_child_spec:
  "lookup p n = Some (Dir es) \<Longrightarrow>
   \<exists>n'. place (p @ [c]) t n = Inr n' \<and> lookup p n' = Some (Dir (AList.update c t es))"
  by (induction p n rule: lookup.induct)
     (auto split: option.splits sum.splits simp: update_conv')

lemma place_put_child:
  "lookup p n = Some (Dir es) \<Longrightarrow> place (p @ [c]) t n = Inr (put (p @ [c]) t n)"
  using place_child_spec[of p n es c t] by (auto simp: put_def)

lemma lookup_put_child:
  "lookup p n = Some (Dir es) \<Longrightarrow> lookup p (put (p @ [c]) t n) = Some (Dir (AList.update c t es))"
  using place_child_spec[of p n es c t] by (auto simp: put_def)

lemma remove_tree_gone: "p \<noteq> [] \<Longrightarrow> lookup p (remove_tree p n) = None"
  by (induction p n rule: remove_tree.induct)
     (auto simp: update_conv' delete_conv' split: option.splits)

lemma place_after_remove:
  "lookup p n = Some x \<Longrightarrow> p \<noteq> [] \<Longrightarrow> \<exists>n'. place p t (remove_tree p n) = Inr n'"
  by (induction p n rule: remove_tree.induct)
     (auto simp: update_conv' delete_conv' split: option.splits sum.splits)

lemma appended_only_refl: "appended_only n n"
  by (auto simp: appended_only_def)

lemma appended_only_trans:
  assumes "appended_only n n'" "appended_only n' n''"
  shows "appended_only n n''"
  unfolding appended_only_def
proof (intro allI impI)
  fix q c assume "lookup q n = Some (File c)"
  with assms(1) obtain s1 where "lookup q n' = Some (File (c @ s1))"
    by (auto simp: appended_only_def)
  with assms(2) obtain s2 where "lookup q n'' = Some (File ((c @ s1) @ s2))"
    unfolding appended_only_def by blast
  then have "lookup q n'' = Some (File (c @ (s1 @ s2)))" by simp
  then show "\<exists>suffix. lookup q n'' = Some (File (c @ suffix))" by blast
qed

lemma place_file_appended:
  assumes pl: "place p (File (c0 @ d)) n = Inr n'"
      and old: "lookup p n = Some (File c0)
                \<or> (lookup p n = None \<and> c0 = [] \<and> (\<exists>es. lookup (butlast p) n = Some (Dir es)))"
  shows "appended_only n n'"
  unfolding appended_only_def
proof (intro allI impI)
  fix q c assume q: "lookup q n = Some (File c)"
  show "\<exists>suffix. lookup q n' = Some (File (c @ suffix))"
  proof (cases "q = p")
    case True
    with q old have "c = c0" by auto
    with lookup_place[OF pl] True show ?thesis by blast
  next
    case False
    have np: "\<not> prefix p q"
    proof
      assume "prefix p q"
      then obtain r where r: "q = p @ r" by (auto simp: prefix_def)
      with False have "r \<noteq> []" by auto
      with q r old show False
        by (auto simp: lookup_append lookup_File)
    qed
    have nq: "\<not> prefix q p"
    proof
      assume "prefix q p"
      then obtain r where r: "p = q @ r" by (auto simp: prefix_def)
      with False have rne: "r \<noteq> []" by auto
      then have "lookup p n = None" using q r by (simp add: lookup_append lookup_File)
      with old obtain es where es: "lookup (butlast p) n = Some (Dir es)" by auto
      have "butlast p = q @ butlast r" using r rne by (simp add: butlast_append)
      with es q show False
        by (cases "butlast r = []") (auto simp: lookup_append lookup_File)
    qed
    from lookup_place_frame[OF pl np nq] q have "lookup q n' = Some (File (c @ []))" by simp
    then show ?thesis by blast
  qed
qed

section \<open>Properties of strings and lines\<close>

lemma str_in_iff: "str_in needle hay \<longleftrightarrow> (\<exists>p q. hay = p @ needle @ q)"
proof (induction hay)
  case Nil
  then show ?case by auto
next
  case (Cons c cs)
  show ?case
  proof
    assume "str_in needle (c # cs)"
    then consider "prefix needle (c # cs)" | "str_in needle cs" by auto
    then show "\<exists>p q. c # cs = p @ needle @ q"
    proof cases
      case 1
      then obtain q where "c # cs = needle @ q" by (auto simp: prefix_def)
      then have "c # cs = [] @ needle @ q" by simp
      then show ?thesis by blast
    next
      case 2
      with Cons obtain p q where "cs = p @ needle @ q" by blast
      then have "c # cs = (c # p) @ needle @ q" by simp
      then show ?thesis by blast
    qed
  next
    assume "\<exists>p q. c # cs = p @ needle @ q"
    then obtain p q where pq: "c # cs = p @ needle @ q" by blast
    show "str_in needle (c # cs)"
    proof (cases p)
      case Nil
      with pq have "prefix needle (c # cs)" by (auto simp: prefix_def)
      then show ?thesis by simp
    next
      case (Cons a p')
      with pq have "cs = p' @ needle @ q" by simp
      with Cons.IH have "str_in needle cs" by blast
      then show ?thesis by simp
    qed
  qed
qed

lemma str_in_eq_mem: "str_in [c] l \<longleftrightarrow> c \<in> set l"
  by (induction l) auto

lemma readlines_Nil_iff: "readlines x = [] \<longleftrightarrow> x = []"
  by (cases x) (auto split: list.splits)

lemma readlines_append_nl:
  "readlines (x @ CHR 0x0A # y) = readlines (x @ [CHR 0x0A]) @ readlines y"
proof (induction x)
  case Nil
  then show ?case by simp
next
  case (Cons c cs)
  have "readlines (cs @ [CHR 0x0A]) \<noteq> []" by (simp add: readlines_Nil_iff)
  then obtain l ls where "readlines (cs @ [CHR 0x0A]) = l # ls" by (cases "readlines (cs @ [CHR 0x0A])") auto
  with Cons show ?case by simp
qed

lemma readlines_snoc_nl:
  "readlines (x @ [CHR 0x0A]) =
     (if x = [] \<or> last x = CHR 0x0A then readlines x @ [[CHR 0x0A]]
      else butlast (readlines x) @ [last (readlines x) @ [CHR 0x0A]])"
proof (induction x)
  case Nil
  then show ?case by simp
next
  case (Cons c cs)
  show ?case
  proof (cases "cs = []")
    case True
    then show ?thesis by simp
  next
    case False
    then obtain l ls where r: "readlines cs = l # ls"
      by (cases "readlines cs") (auto simp: readlines_Nil_iff)
    show ?thesis using Cons False r by (auto split: list.splits)
  qed
qed

lemma strip_snoc_nl: "strip (l @ [CHR 0x0A]) = strip l"
proof (cases "\<forall>c\<in>set l. isspace c")
  case True
  have sp: "isspace (CHR 0x0A)" by (simp add: isspace_def)
  have a: "dropWhile isspace l = []" using True by (simp add: dropWhile_eq_Nil_conv)
  have b: "dropWhile isspace (l @ [CHR 0x0A]) = []"
    using True sp by (simp add: dropWhile_eq_Nil_conv)
  show ?thesis unfolding strip_def a b by simp
next
  case False
  have sp: "isspace (CHR 0x0A)" by (simp add: isspace_def)
  from False have "dropWhile isspace (l @ [CHR 0x0A]) = dropWhile isspace l @ [CHR 0x0A]"
    by (auto simp: dropWhile_append)
  then show ?thesis using sp by (simp add: strip_def)
qed

lemma universal_newlines_append_nl:
  "universal_newlines (c @ CHR 0x0A # r) =
     (if c \<noteq> [] \<and> last c = CHR 0x0D then universal_newlines c @ universal_newlines r
      else universal_newlines c @ CHR 0x0A # universal_newlines r)"
proof (induction c rule: universal_newlines.induct)
  case 1
  then show ?case by (cases r) auto
next
  case (2 c)
  then show ?case by (cases r) auto
next
  case (3 c d ds)
  then show ?case by (cases ds) (auto split: if_splits)
qed

lemma universal_newlines_last:
  "c \<noteq> [] \<Longrightarrow> last c = CHR 0x0D \<Longrightarrow>
   universal_newlines c \<noteq> [] \<and> last (universal_newlines c) = CHR 0x0A"
proof (induction c rule: universal_newlines.induct)
  case 1
  then show ?case by simp
next
  case (2 c)
  then show ?case by simp
next
  case (3 c d ds)
  show ?case
  proof (cases ds)
    case Nil
    with 3 show ?thesis by simp
  next
    case (Cons e es)
    with 3 show ?thesis by (simp split: if_splits)
  qed
qed

lemma universal_newlines_ends_nl:
  assumes "c \<noteq> []" "last c = CHR 0x0D"
  shows "\<exists>z. universal_newlines c = z @ [CHR 0x0A]"
proof -
  from universal_newlines_last[OF assms]
  have "universal_newlines c = butlast (universal_newlines c) @ [CHR 0x0A]"
    using append_butlast_last_id[of "universal_newlines c"] by simp
  then show ?thesis by blast
qed

lemma env_line_snoc_nl: "env_line (l @ [CHR 0x0A]) m = env_line l m"
proof (cases "CHR ''='' \<in> set l")
  case True
  then have dw: "dropWhile (\<lambda>c. c \<noteq> CHR ''='') l \<noteq> []" by (simp)
  have "CHR ''='' \<in> set (l @ [CHR 0x0A])" using True by simp
  moreover have "takeWhile (\<lambda>c. c \<noteq> CHR ''='') (l @ [CHR 0x0A]) = takeWhile (\<lambda>c. c \<noteq> CHR ''='') l"
    by (rule takeWhile_append1[OF True]) simp
  moreover have "tl (dropWhile (\<lambda>c. c \<noteq> CHR ''='') (l @ [CHR 0x0A]))
      = tl (dropWhile (\<lambda>c. c \<noteq> CHR ''='') l) @ [CHR 0x0A]"
    using dropWhile_append1[OF True, of "\<lambda>c. c \<noteq> CHR ''=''" "[CHR 0x0A]"] dw by simp
  ultimately show ?thesis using True
    by (simp add: env_line_def str_in_eq_mem strip_snoc_nl del: set_append)
next
  case False
  then show ?thesis by (simp add: env_line_def str_in_eq_mem)
qed

lemma env_line_nl: "env_line [CHR 0x0A] m = m"
  by (simp add: env_line_def)

lemma fold_env_snoc_nl:
  "fold env_line (readlines (x @ [CHR 0x0A])) m = fold env_line (readlines x) m"
proof (cases "x = [] \<or> last x = CHR 0x0A")
  case True
  then show ?thesis by (simp add: readlines_snoc_nl env_line_nl)
next
  case False
  then have ne: "readlines x \<noteq> []" by (simp add: readlines_Nil_iff)
  have "fold env_line (butlast (readlines x) @ [last (readlines x) @ [CHR 0x0A]]) m
      = env_line (last (readlines x)) (fold env_line (butlast (readlines x)) m)"
    by (simp add: env_line_snoc_nl)
  also have "\<dots> = fold env_line (butlast (readlines x) @ [last (readlines x)]) m" by simp
  also have "\<dots> = fold env_line (readlines x) m" using ne by simp
  finally show ?thesis using False by (simp add: readlines_snoc_nl)
qed

lemma parse_env_append_nl:
  "parse_env (universal_newlines (c @ CHR 0x0A # r))
     = fold env_line (readlines (universal_newlines r)) (parse_env (universal_newlines c))"
proof (cases "c \<noteq> [] \<and> last c = CHR 0x0D")
  case True
  then obtain z where z: "universal_newlines c = z @ [CHR 0x0A]"
    using universal_newlines_ends_nl by blast
  have "readlines (universal_newlines c @ universal_newlines r)
      = readlines (universal_newlines c) @ readlines (universal_newlines r)"
    using readlines_append_nl[of z "universal_newlines r"] by (simp add: z)
  with True show ?thesis by (simp add: parse_env_def universal_newlines_append_nl)
next
  case False
  have "readlines (universal_newlines c @ CHR 0x0A # universal_newlines r)
      = readlines (universal_newlines c @ [CHR 0x0A]) @ readlines (universal_newlines r)"
    by (rule readlines_append_nl)
  moreover have "universal_newlines (c @ CHR 0x0A # r)
      = universal_newlines c @ CHR 0x0A # universal_newlines r"
    using False by (simp only: universal_newlines_append_nl if_False)
  ultimately show ?thesis
    by (simp add: parse_env_def fold_env_snoc_nl)
qed

section \<open>Running the computations\<close>

lemma bind_ret: "bind_run (ret a) f = f a"
  by (rule ext) (simp add: bind_run_def ret_def)

lemma bind_raise: "bind_run (raise e) f = raise e"
  by (rule ext) (simp add: bind_run_def raise_def)

lemma bind_assoc: "bind_run (bind_run m g) f = bind_run m (\<lambda>a. bind_run (g a) f)"
  by (rule ext) (simp add: bind_run_def split: prod.splits sum.splits)

lemma bind_emit: "bind_run (emit ev) f s = f () (s\<lparr>trace := trace s @ [ev]\<rparr>)"
  by (simp add: bind_run_def emit_def)

lemma bind_log: "bind_run (log sc msg) f s = f () (s\<lparr>trace := trace s @ [Print (tag sc @ msg)]\<rparr>)"
  by (simp add: log_def bind_emit)

lemma bind_path_exists: "bind_run (path_exists p) f s = f (lookup p (fs s) \<noteq> None) s"
  by (simp add: bind_run_def path_exists_def)

lemma run_command_dir:
  "lookup cwd (fs s) = Some (Dir es) \<Longrightarrow>
   run_command sc sh cmd cwd s =
     (Inr (fst (sh cmd cwd (fs s))),
      \<lparr>fs = snd (sh cmd cwd (fs s)),
       trace = trace s @ [Check_call cmd cwd]
         @ (if fst (sh cmd cwd (fs s)) then [] else [Print (tag sc @ ''Command failed: '' @ cmd)])\<rparr>)"
  by (cases "sh cmd cwd (fs s)")
     (simp add: run_command_def bind_emit bind_log ret_def split: bool.splits)

lemma bind_run_command_dir:
  "lookup cwd (fs s) = Some (Dir es) \<Longrightarrow>
   bind_run (run_command sc sh cmd cwd) f s =
     f (fst (sh cmd cwd (fs s)))
      \<lparr>fs = snd (sh cmd cwd (fs s)),
       trace = trace s @ [Check_call cmd cwd]
         @ (if fst (sh cmd cwd (fs s)) then [] else [Print (tag sc @ ''Command failed: '' @ cmd)])\<rparr>"
  by (simp add: bind_run_def run_command_dir)

lemma bind_mkdir_absent:
  "lookup p (fs s) = None \<Longrightarrow>
   bind_run (mkdir_parents_exist_ok p) f s =
     (case place p (Dir []) (fs s) of
        Inl e \<Rightarrow> (Inl e, s\<lparr>trace := trace s @ [Mkdir p]\<rparr>)
      | Inr n \<Rightarrow> f () (s\<lparr>trace := trace s @ [Mkdir p], fs := n\<rparr>))"
  by (simp add: mkdir_parents_exist_ok_def bind_run_def emit_def split: sum.splits)

lemma bind_rmtree:
  "bind_run (rmtree p) f s =
     (case lookup p (fs s) of
        None \<Rightarrow> (Inl (missing_error p (fs s)), s\<lparr>trace := trace s @ [Rmtree p]\<rparr>)
      | Some (File x) \<Rightarrow> (Inl NotADirectoryError, s\<lparr>trace := trace s @ [Rmtree p]\<rparr>)
      | Some (Dir es) \<Rightarrow> f () (s\<lparr>trace := trace s @ [Rmtree p], fs := remove_tree p (fs s)\<rparr>))"
  by (simp add: rmtree_def bind_run_def emit_def split: option.splits node.splits)

lemma bind_listdir:
  "bind_run (listdir_or_missing p) f s =
     (case lookup p (fs s) of
        None \<Rightarrow>
          (if missing_error p (fs s) = FileNotFoundError then f None s
           else (Inl (missing_error p (fs s)), s))
      | Some (File x) \<Rightarrow> (Inl NotADirectoryError, s)
      | Some (Dir es) \<Rightarrow> f (Some (remdups (map fst es))) s)"
  by (simp add: listdir_or_missing_def bind_run_def split: option.splits node.splits)

lemma bind_read_text_child:
  assumes "lookup dir (fs s) = Some (Dir es)"
  shows "bind_run (read_text (dir @ [name])) f s =
     (case map_of es name of
        None \<Rightarrow> (Inl FileNotFoundError, s)
      | Some (Dir x) \<Rightarrow> (Inl IsADirectoryError, s)
      | Some (File c) \<Rightarrow> f (universal_newlines c) s)"
  using assms
  by (simp add: read_text_def bind_run_def lookup_child missing_error_child
        split: option.splits node.splits)

lemma append_text_child:
  assumes "lookup dir (fs s) = Some (Dir es)"
  shows "append_text (dir @ [name]) d s =
     (case map_of es name of
        Some (Dir x) \<Rightarrow> (Inl IsADirectoryError, s)
      | Some (File c) \<Rightarrow> (Inr (), s\<lparr>fs := put (dir @ [name]) (File (c @ d)) (fs s)\<rparr>)
      | None \<Rightarrow> (Inr (), s\<lparr>fs := put (dir @ [name]) (File d) (fs s)\<rparr>))"
  using assms place_put_child[OF assms]
  by (simp add: append_text_def lookup_child install_def split: option.splits node.splits)

subsection \<open>What a computation adds to the trace\<close>

lemma emitsI: "(\<And>s. \<exists>evs. trace (snd (m s)) = trace s @ evs \<and> list_all P evs) \<Longrightarrow> emits P m"
  by (simp add: emits_def)

lemma emits_ret: "emits P (ret a)"
  by (simp add: emits_def ret_def)

lemma emits_raise: "emits P (raise e)"
  by (simp add: emits_def raise_def)

lemma emits_emit: "P ev \<Longrightarrow> emits P (emit ev)"
  by (simp add: emits_def emit_def)

lemma emits_log: "P (Print (tag sc @ msg)) \<Longrightarrow> emits P (log sc msg)"
  by (simp add: log_def emits_emit)

lemma emits_path_exists: "emits P (path_exists p)"
  by (simp add: emits_def path_exists_def)

lemma emits_bind:
  assumes m: "emits P m" and f: "\<And>a. emits P (f a)"
  shows "emits P (bind_run m f)"
proof (rule emitsI)
  fix s
  from m obtain evs where evs: "trace (snd (m s)) = trace s @ evs" "list_all P evs"
    by (auto simp: emits_def)
  show "\<exists>evs. trace (snd (bind_run m f s)) = trace s @ evs \<and> list_all P evs"
  proof (cases "m s")
    case (Pair r s')
    show ?thesis
    proof (cases r)
      case (Inl e)
      with Pair evs show ?thesis by (auto simp: bind_run_def)
    next
      case (Inr a)
      from f[of a] obtain evs' where "trace (snd (f a s')) = trace s' @ evs'" "list_all P evs'"
        by (auto simp: emits_def)
      with Pair Inr evs show ?thesis by (auto simp: bind_run_def)
    qed
  qed
qed

lemma emits_if: "emits P m \<Longrightarrow> emits P m' \<Longrightarrow> emits P (if b then m else m')"
  by simp

lemma emits_step:
  "(\<And>s. \<exists>evs. trace (snd (k s)) = trace s @ evs \<and> list_all P evs) \<Longrightarrow> P ev \<Longrightarrow>
   emits P (bind_run (emit ev) (\<lambda>_. k))"
  by (rule emits_bind) (auto simp: emits_def emit_def)

lemma emits_rmtree: "P (Rmtree p) \<Longrightarrow> emits P (rmtree p)"
  unfolding rmtree_def
  by (rule emits_step) (auto split: option.splits node.splits)

lemma emits_copytree: "P (Copytree src dst) \<Longrightarrow> emits P (copytree src dst pats)"
  unfolding copytree_def
  by (rule emits_step) (auto split: option.splits node.splits sum.splits)

lemma emits_mkdir: "P (Mkdir p) \<Longrightarrow> emits P (mkdir_parents_exist_ok p)"
  unfolding mkdir_parents_exist_ok_def
  by (rule emits_step) (auto split: option.splits node.splits sum.splits)

lemma emits_sync_directory:
  "emits (\<lambda>e. \<not> is_check_call e) (sync_directory sc src_rel dest_rel x)"
  unfolding sync_directory_def Let_def
  by (intro emits_bind emits_if emits_emit emits_log emits_path_exists emits_rmtree
        emits_copytree emits_ret) simp_all

lemma emits_for_each: "(\<And>x. emits P (body x)) \<Longrightarrow> emits P (for_each body xs)"
  by (induction xs) (auto intro: emits_bind emits_ret)

lemma emits_filter:
  "emits (\<lambda>e. \<not> Q e) m \<Longrightarrow> filter Q (trace (snd (m s))) = filter Q (trace s)"
  by (auto simp: emits_def list_all_iff filter_empty_conv dest!: spec[of _ s])




subsection \<open>Computations that only append to files\<close>

lemma only_appends_same: "(\<And>s. fs (snd (m s)) = fs s) \<Longrightarrow> only_appends m"
  by (simp add: only_appends_def appended_only_refl)

lemma only_appends_bind:
  assumes m: "only_appends m" and f: "\<And>a. only_appends (f a)"
  shows "only_appends (bind_run m f)"
  unfolding only_appends_def
proof
  fix s
  show "appended_only (fs s) (fs (snd (bind_run m f s)))"
  proof (cases "m s")
    case (Pair r s')
    from m have 1: "appended_only (fs s) (fs s')" using Pair
      by (auto simp: only_appends_def dest!: spec[of _ s])
    show ?thesis
    proof (cases r)
      case (Inl e)
      with Pair 1 show ?thesis by (simp add: bind_run_def)
    next
      case (Inr a)
      from f[of a] have "appended_only (fs s') (fs (snd (f a s')))"
        by (simp add: only_appends_def)
      with 1 Pair Inr show ?thesis
        by (auto simp: bind_run_def intro: appended_only_trans)
    qed
  qed
qed

lemma only_appends_if: "only_appends m \<Longrightarrow> only_appends m' \<Longrightarrow> only_appends (if b then m else m')"
  by simp

lemma only_appends_ret: "only_appends (ret a)"
  by (rule only_appends_same) (simp add: ret_def)

lemma only_appends_emit: "only_appends (emit ev)"
  by (rule only_appends_same) (simp add: emit_def)

lemma only_appends_path_exists: "only_appends (path_exists p)"
  by (rule only_appends_same) (simp add: path_exists_def)

lemma only_appends_read_text: "only_appends (read_text p)"
  by (rule only_appends_same) (simp add: read_text_def split: option.splits node.splits)

lemma only_appends_listdir: "only_appends (listdir_or_missing p)"
  by (rule only_appends_same) (simp add: listdir_or_missing_def split: option.splits node.splits)

lemma only_appends_append_text: "only_appends (append_text p d)"
  unfolding only_appends_def
proof
  fix s
  show "appended_only (fs s) (fs (snd (append_text p d s)))"
  proof (cases "lookup p (fs s)")
    case None
    show ?thesis
    proof (cases "lookup (butlast p) (fs s)")
      case None
      with \<open>lookup p (fs s) = None\<close> show ?thesis
        by (simp add: append_text_def appended_only_refl)
    next
      case (Some m)
      show ?thesis
      proof (cases m)
        case (File x)
        with Some \<open>lookup p (fs s) = None\<close> show ?thesis
          by (simp add: append_text_def appended_only_refl)
      next
        case (Dir es)
        show ?thesis
        proof (cases "place p (File d) (fs s)")
          case (Inl e)
          with Dir Some \<open>lookup p (fs s) = None\<close> show ?thesis
            by (simp add: append_text_def install_def appended_only_refl)
        next
          case (Inr n')
          then have "place p (File ([] @ d)) (fs s) = Inr n'" by simp
          from place_file_appended[OF this] Dir Some \<open>lookup p (fs s) = None\<close>
          have "appended_only (fs s) n'" by simp
          with Inr Dir Some \<open>lookup p (fs s) = None\<close> show ?thesis
            by (simp add: append_text_def install_def)
        qed
      qed
    qed
  next
    case (Some m)
    show ?thesis
    proof (cases m)
      case (Dir es)
      with Some show ?thesis by (simp add: append_text_def appended_only_refl)
    next
      case (File c)
      show ?thesis
      proof (cases "place p (File (c @ d)) (fs s)")
        case (Inl e)
        with File Some show ?thesis
          by (simp add: append_text_def install_def appended_only_refl)
      next
        case (Inr n')
        from place_file_appended[OF Inr] File Some have "appended_only (fs s) n'" by simp
        with Inr File Some show ?thesis by (simp add: append_text_def install_def)
      qed
    qed
  qed
qed

section \<open>The cache managers and the main functions\<close>

lemma adk_absent:
  assumes "lookup (REPO_CACHE_PATH sc) (fs s) = None"
  shows "adk_ensure_repo_updated sc sh s =
     (case place (REPO_CACHE_PATH sc) (Dir []) (fs s) of
        Inl e \<Rightarrow> (Inl e, s\<lparr>trace := trace s @ [Print (not_found_msg sc), Mkdir (REPO_CACHE_PATH sc)]\<rparr>)
      | Inr n1 \<Rightarrow>
         (Inr (fst (sh (clone_cmd sc) (REPO_CACHE_PATH sc) n1)),
          \<lparr>fs = snd (sh (clone_cmd sc) (REPO_CACHE_PATH sc) n1),
           trace = trace s @ [Print (not_found_msg sc), Mkdir (REPO_CACHE_PATH sc),
                      Check_call (clone_cmd sc) (REPO_CACHE_PATH sc)]
             @ (if fst (sh (clone_cmd sc) (REPO_CACHE_PATH sc) n1)
                then [Print (tag sc @ ''Cloning successful.'')]
                else [Print (tag sc @ ''Command failed: '' @ clone_cmd sc),
                      Print (tag sc @ ''Cloning failed. Please check your internet connection or git configuration.'')])\<rparr>))"
proof (cases "place (REPO_CACHE_PATH sc) (Dir []) (fs s)")
  case (Inl e)
  with assms show ?thesis
    by (simp add: adk_ensure_repo_updated_def bind_path_exists bind_log bind_mkdir_absent not_found_msg_def)
next
  case (Inr n1)
  from lookup_place[OF Inr] have "lookup (REPO_CACHE_PATH sc) n1 = Some (Dir [])" .
  with assms Inr show ?thesis
    by (simp add: adk_ensure_repo_updated_def bind_path_exists bind_log bind_mkdir_absent
          bind_run_command_dir  ret_def not_found_msg_def)
qed

lemma a2ui_absent:
  assumes "lookup (REPO_CACHE_PATH sc) (fs s) = None"
  shows "a2ui_ensure_repo_updated sc sh s = adk_ensure_repo_updated sc sh s"
  using assms by (simp add: adk_ensure_repo_updated_def a2ui_ensure_repo_updated_def bind_path_exists)

lemma a2ui_present:
  assumes "lookup (REPO_CACHE_PATH sc) (fs s) = Some (Dir es)"
  shows "a2ui_ensure_repo_updated sc sh s =
     (Inr True,
      \<lparr>fs = snd (sh ''git pull'' (REPO_CACHE_PATH sc) (fs s)),
       trace = trace s @ [Print (found_msg sc), Check_call ''git pull'' (REPO_CACHE_PATH sc)]
         @ (if fst (sh ''git pull'' (REPO_CACHE_PATH sc) (fs s))
            then [Print (tag sc @ ''Git pull successful.'')]
            else [Print (tag sc @ ''Command failed: git pull''),
                  Print (tag sc @ ''Git pull failed. Attempting to proceed with existing cache.'')])\<rparr>)"
  using assms
  by (simp add: a2ui_ensure_repo_updated_def bind_path_exists bind_log bind_run_command_dir
        ret_def found_msg_def)

lemma adk_valid:
  assumes "lookup (REPO_CACHE_PATH sc @ [''.git'']) (fs s) \<noteq> None"
  shows "adk_ensure_repo_updated sc sh s =
     (Inr True,
      \<lparr>fs = snd (sh ''git pull'' (REPO_CACHE_PATH sc) (fs s)),
       trace = trace s @ [Print (found_msg sc), Check_call ''git pull'' (REPO_CACHE_PATH sc)]
         @ (if fst (sh ''git pull'' (REPO_CACHE_PATH sc) (fs s))
            then [Print (tag sc @ ''Git pull successful.'')]
            else [Print (tag sc @ ''Command failed: git pull''),
                  Print (tag sc @ ''Git pull failed. Attempting to proceed with existing cache.'')])\<rparr>)"
proof -
  from git_dir_parent[OF assms] obtain es
    where es: "lookup (REPO_CACHE_PATH sc) (fs s) = Some (Dir es)" by blast
  show ?thesis
    using assms es
    by (simp add: adk_ensure_repo_updated_def bind_path_exists bind_log bind_run_command_dir
          ret_def found_msg_def)
qed

lemma adk_invalid:
  assumes dir: "lookup (REPO_CACHE_PATH sc) (fs s) = Some (Dir es)"
      and nogit: "lookup (REPO_CACHE_PATH sc @ [''.git'']) (fs s) = None"
      and ne: "REPO_CACHE_PATH sc \<noteq> []"
  shows "\<exists>n2. place (REPO_CACHE_PATH sc) (Dir []) (remove_tree (REPO_CACHE_PATH sc) (fs s)) = Inr n2
          \<and> adk_ensure_repo_updated sc sh s =
             (Inr (fst (sh (clone_cmd sc) (REPO_CACHE_PATH sc) n2)),
              \<lparr>fs = snd (sh (clone_cmd sc) (REPO_CACHE_PATH sc) n2),
               trace = trace s @
                 [Print (found_msg sc),
                  Print (tag sc @ ''Cache directory exists but is not a git repo. Re-cloning...''),
                  Rmtree (REPO_CACHE_PATH sc), Mkdir (REPO_CACHE_PATH sc),
                  Check_call (clone_cmd sc) (REPO_CACHE_PATH sc)]
                 @ (if fst (sh (clone_cmd sc) (REPO_CACHE_PATH sc) n2) then []
                    else [Print (tag sc @ ''Command failed: '' @ clone_cmd sc)])\<rparr>)"
proof -
  from place_after_remove[OF dir ne] obtain n2
    where n2: "place (REPO_CACHE_PATH sc) (Dir []) (remove_tree (REPO_CACHE_PATH sc) (fs s)) = Inr n2"
    by blast
  have gone: "lookup (REPO_CACHE_PATH sc) (remove_tree (REPO_CACHE_PATH sc) (fs s)) = None"
    using remove_tree_gone[OF ne] .
  have d2: "lookup (REPO_CACHE_PATH sc) n2 = Some (Dir [])" using lookup_place[OF n2] .
  have "adk_ensure_repo_updated sc sh s =
             (Inr (fst (sh (clone_cmd sc) (REPO_CACHE_PATH sc) n2)),
              \<lparr>fs = snd (sh (clone_cmd sc) (REPO_CACHE_PATH sc) n2),
               trace = trace s @
                 [Print (found_msg sc),
                  Print (tag sc @ ''Cache directory exists but is not a git repo. Re-cloning...''),
                  Rmtree (REPO_CACHE_PATH sc), Mkdir (REPO_CACHE_PATH sc),
                  Check_call (clone_cmd sc) (REPO_CACHE_PATH sc)]
                 @ (if fst (sh (clone_cmd sc) (REPO_CACHE_PATH sc) n2) then []
                    else [Print (tag sc @ ''Command failed: '' @ clone_cmd sc)])\<rparr>)"
    using dir nogit gone n2 d2
    by (simp add: adk_ensure_repo_updated_def bind_path_exists bind_log bind_rmtree
          bind_mkdir_absent run_command_dir found_msg_def)
  with n2 show ?thesis by blast
qed

lemma emits_adk_rest:
  "emits (\<lambda>e. \<not> is_check_call e)
     (bind_run (for_each
           (\<lambda>d. sync_directory sc d (if str_in ''samples'' d then ''examples'' else d) True)
           adk_DIRECTORIES_TO_SYNC) (\<lambda>_.
         bind_run (path_exists (REPO_CACHE_PATH sc @ rel ''docs'')) (\<lambda>has_docs.
         bind_run (if has_docs then sync_directory sc ''docs'' ''docs'' True else ret ()) (\<lambda>_.
           log sc ''Global Update complete. Skill is synchronized.''))))"
  by (intro emits_bind emits_for_each emits_sync_directory emits_path_exists emits_if emits_ret emits_log) simp

lemma emits_a2ui_rest:
  "emits (\<lambda>e. \<not> is_check_call e)
     (bind_run (for_each (\<lambda>d. sync_directory sc d d True) a2ui_DIRECTORIES_TO_SYNC) (\<lambda>_.
         bind_run (for_each (\<lambda>m. sync_directory sc (fst m) (snd m) True) SAMPLES_MAPPING) (\<lambda>_.
           log sc ''Global Update complete. Skill is synchronized.'')))"
  by (intro emits_bind emits_for_each emits_sync_directory emits_log) simp

lemma adk_main_unfold:
  "adk_main sc sh s =
    (case adk_ensure_repo_updated sc sh
        (s\<lparr>trace := trace s @ [Print (tag sc @ ''Starting Global ADK Skill Self-Update...''),
                               Print (tag sc @ ''Skill Root: '' @ show_path (SKILL_ROOT sc))]\<rparr>) of
       (Inl e, s') \<Rightarrow> (Inl e, s')
     | (Inr False, s') \<Rightarrow> (Inl (SystemExit 1), s'\<lparr>trace := trace s' @
          [Print (tag sc @ ''Critical Error: Could not update reference repository. Aborting sync.'')]\<rparr>)
     | (Inr True, s') \<Rightarrow>
        (bind_run (for_each
           (\<lambda>d. sync_directory sc d (if str_in ''samples'' d then ''examples'' else d) True)
           adk_DIRECTORIES_TO_SYNC) (\<lambda>_.
         bind_run (path_exists (REPO_CACHE_PATH sc @ rel ''docs'')) (\<lambda>has_docs.
         bind_run (if has_docs then sync_directory sc ''docs'' ''docs'' True else ret ()) (\<lambda>_.
           log sc ''Global Update complete. Skill is synchronized.'')))) s')"
proof -
  obtain r s' where r: "adk_ensure_repo_updated sc sh
        (s\<lparr>trace := trace s @ [Print (tag sc @ ''Starting Global ADK Skill Self-Update...''),
                               Print (tag sc @ ''Skill Root: '' @ show_path (SKILL_ROOT sc))]\<rparr>) = (r, s')"
    by (cases "adk_ensure_repo_updated sc sh
        (s\<lparr>trace := trace s @ [Print (tag sc @ ''Starting Global ADK Skill Self-Update...''),
                               Print (tag sc @ ''Skill Root: '' @ show_path (SKILL_ROOT sc))]\<rparr>)") auto
  show ?thesis
  proof (cases r)
    case (Inl e)
    with r show ?thesis
      by (simp add: adk_main_def bind_log) (simp add: bind_run_def)
  next
    case (Inr b)
    with r show ?thesis
      by (simp add: adk_main_def bind_log) (simp add: bind_run_def[of "adk_ensure_repo_updated sc sh"] bind_log raise_def)
  qed
qed

lemma a2ui_main_unfold:
  "a2ui_main sc sh s =
    (case a2ui_ensure_repo_updated sc sh
        (s\<lparr>trace := trace s @ [Print (tag sc @ ''Starting Global A2UI Skill Self-Update...''),
                               Print (tag sc @ ''Skill Root: '' @ show_path (SKILL_ROOT sc))]\<rparr>) of
       (Inl e, s') \<Rightarrow> (Inl e, s')
     | (Inr False, s') \<Rightarrow> (Inl (SystemExit 1), s'\<lparr>trace := trace s' @
          [Print (tag sc @ ''Critical Error: Could not update reference repository. Aborting sync.'')]\<rparr>)
     | (Inr True, s') \<Rightarrow>
        (bind_run (for_each (\<lambda>d. sync_directory sc d d True) a2ui_DIRECTORIES_TO_SYNC) (\<lambda>_.
         bind_run (for_each (\<lambda>m. sync_directory sc (fst m) (snd m) True) SAMPLES_MAPPING) (\<lambda>_.
           log sc ''Global Update complete. Skill is synchronized.''))) s')"
proof -
  obtain r s' where r: "a2ui_ensure_repo_updated sc sh
        (s\<lparr>trace := trace s @ [Print (tag sc @ ''Starting Global A2UI Skill Self-Update...''),
                               Print (tag sc @ ''Skill Root: '' @ show_path (SKILL_ROOT sc))]\<rparr>) = (r, s')"
    by (cases "a2ui_ensure_repo_updated sc sh
        (s\<lparr>trace := trace s @ [Print (tag sc @ ''Starting Global A2UI Skill Self-Update...''),
                               Print (tag sc @ ''Skill Root: '' @ show_path (SKILL_ROOT sc))]\<rparr>)") auto
  show ?thesis
  proof (cases r)
    case (Inl e)
    with r show ?thesis
      by (simp add: a2ui_main_def bind_log) (simp add: bind_run_def)
  next
    case (Inr b)
    with r show ?thesis
      by (simp add: a2ui_main_def bind_log) (simp add: bind_run_def[of "a2ui_ensure_repo_updated sc sh"] bind_log raise_def)
  qed
qed

lemma exit_code_place: "place p t n = Inl e \<Longrightarrow> exit_code (Inl e) = 1"
  by (drule place_error) (simp add: exit_code_def)

lemma adk_main_absent:
  assumes absent: "lookup (REPO_CACHE_PATH sc) n = None"
  shows "(\<forall>n1. place (REPO_CACHE_PATH sc) (Dir []) n = Inr n1 \<longrightarrow>
            filter is_check_call (trace (snd (adk_main sc sh (start n))))
              = [Check_call (clone_cmd sc) (REPO_CACHE_PATH sc)]
            \<and> (\<not> fst (sh (clone_cmd sc) (REPO_CACHE_PATH sc) n1) \<longrightarrow>
                 fst (adk_main sc sh (start n)) = Inl (SystemExit 1)
                 \<and> exit_code (fst (adk_main sc sh (start n))) = 1
                 \<and> filter is_enter_sync (trace (snd (adk_main sc sh (start n)))) = []))
       \<and> (\<forall>e. place (REPO_CACHE_PATH sc) (Dir []) n = Inl e \<longrightarrow>
            filter is_check_call (trace (snd (adk_main sc sh (start n)))) = []
            \<and> exit_code (fst (adk_main sc sh (start n))) = 1
            \<and> filter is_enter_sync (trace (snd (adk_main sc sh (start n)))) = [])"
proof (intro conjI allI impI)
  fix e assume e: "place (REPO_CACHE_PATH sc) (Dir []) n = Inl e"
  with absent have m: "adk_main sc sh (start n) = (Inl e, 
      \<lparr>fs = n, trace = [Print (tag sc @ ''Starting Global ADK Skill Self-Update...''),
                               Print (tag sc @ ''Skill Root: '' @ show_path (SKILL_ROOT sc)),
            Print (not_found_msg sc), Mkdir (REPO_CACHE_PATH sc)]\<rparr>)"
    by (simp add: adk_main_unfold adk_absent start_def)
  show "filter is_check_call (trace (snd (adk_main sc sh (start n)))) = []" by (simp add: m)
  show "exit_code (fst (adk_main sc sh (start n))) = 1" using exit_code_place[OF e] by (simp add: m)
  show "filter is_enter_sync (trace (snd (adk_main sc sh (start n)))) = []" by (simp add: m)
next
  fix n1 assume n1: "place (REPO_CACHE_PATH sc) (Dir []) n = Inr n1"
  let ?ok = "fst (sh (clone_cmd sc) (REPO_CACHE_PATH sc) n1)"
  show "filter is_check_call (trace (snd (adk_main sc sh (start n))))
              = [Check_call (clone_cmd sc) (REPO_CACHE_PATH sc)]"
  proof (cases ?ok)
    case True
    with absent n1 show ?thesis
      by (simp add: adk_main_unfold adk_absent start_def emits_filter[OF emits_adk_rest])
  next
    case False
    with absent n1 show ?thesis
      by (simp add: adk_main_unfold adk_absent start_def)
  qed
  {
    assume "\<not> ?ok"
    with absent n1 have m: "adk_main sc sh (start n) = (Inl (SystemExit 1),
      \<lparr>fs = snd (sh (clone_cmd sc) (REPO_CACHE_PATH sc) n1),
       trace = [Print (tag sc @ ''Starting Global ADK Skill Self-Update...''),
                Print (tag sc @ ''Skill Root: '' @ show_path (SKILL_ROOT sc)),
                Print (not_found_msg sc), Mkdir (REPO_CACHE_PATH sc),
                Check_call (clone_cmd sc) (REPO_CACHE_PATH sc),
                Print (tag sc @ ''Command failed: '' @ clone_cmd sc),
                Print (tag sc @ ''Cloning failed. Please check your internet connection or git configuration.''),
                Print (tag sc @ ''Critical Error: Could not update reference repository. Aborting sync.'')]\<rparr>)"
      by (simp add: adk_main_unfold adk_absent start_def)
    show "fst (adk_main sc sh (start n)) = Inl (SystemExit 1)" by (simp add: m)
    show "exit_code (fst (adk_main sc sh (start n))) = 1" by (simp add: m exit_code_def)
    show "filter is_enter_sync (trace (snd (adk_main sc sh (start n)))) = []" by (simp add: m)
  }
qed

lemma a2ui_main_absent:
  assumes absent: "lookup (REPO_CACHE_PATH sc) n = None"
  shows "(\<forall>n1. place (REPO_CACHE_PATH sc) (Dir []) n = Inr n1 \<longrightarrow>
            filter is_check_call (trace (snd (a2ui_main sc sh (start n))))
              = [Check_call (clone_cmd sc) (REPO_CACHE_PATH sc)]
            \<and> (\<not> fst (sh (clone_cmd sc) (REPO_CACHE_PATH sc) n1) \<longrightarrow>
                 fst (a2ui_main sc sh (start n)) = Inl (SystemExit 1)
                 \<and> exit_code (fst (a2ui_main sc sh (start n))) = 1
                 \<and> filter is_enter_sync (trace (snd (a2ui_main sc sh (start n)))) = []))
       \<and> (\<forall>e. place (REPO_CACHE_PATH sc) (Dir []) n = Inl e \<longrightarrow>
            filter is_check_call (trace (snd (a2ui_main sc sh (start n)))) = []
            \<and> exit_code (fst (a2ui_main sc sh (start n))) = 1
            \<and> filter is_enter_sync (trace (snd (a2ui_main sc sh (start n)))) = [])"
proof (intro conjI allI impI)
  fix e assume e: "place (REPO_CACHE_PATH sc) (Dir []) n = Inl e"
  with absent have m: "a2ui_main sc sh (start n) = (Inl e, 
      \<lparr>fs = n, trace = [Print (tag sc @ ''Starting Global A2UI Skill Self-Update...''),
                               Print (tag sc @ ''Skill Root: '' @ show_path (SKILL_ROOT sc)),
            Print (not_found_msg sc), Mkdir (REPO_CACHE_PATH sc)]\<rparr>)"
    by (simp add: a2ui_main_unfold a2ui_absent adk_absent start_def)
  show "filter is_check_call (trace (snd (a2ui_main sc sh (start n)))) = []" by (simp add: m)
  show "exit_code (fst (a2ui_main sc sh (start n))) = 1" using exit_code_place[OF e] by (simp add: m)
  show "filter is_enter_sync (trace (snd (a2ui_main sc sh (start n)))) = []" by (simp add: m)
next
  fix n1 assume n1: "place (REPO_CACHE_PATH sc) (Dir []) n = Inr n1"
  let ?ok = "fst (sh (clone_cmd sc) (REPO_CACHE_PATH sc) n1)"
  show "filter is_check_call (trace (snd (a2ui_main sc sh (start n))))
              = [Check_call (clone_cmd sc) (REPO_CACHE_PATH sc)]"
  proof (cases ?ok)
    case True
    with absent n1 show ?thesis
      by (simp add: a2ui_main_unfold a2ui_absent adk_absent start_def emits_filter[OF emits_a2ui_rest])
  next
    case False
    with absent n1 show ?thesis
      by (simp add: a2ui_main_unfold a2ui_absent adk_absent start_def)
  qed
  {
    assume "\<not> ?ok"
    with absent n1 have m: "a2ui_main sc sh (start n) = (Inl (SystemExit 1),
      \<lparr>fs = snd (sh (clone_cmd sc) (REPO_CACHE_PATH sc) n1),
       trace = [Print (tag sc @ ''Starting Global A2UI Skill Self-Update...''),
                Print (tag sc @ ''Skill Root: '' @ show_path (SKILL_ROOT sc)),
                Print (not_found_msg sc), Mkdir (REPO_CACHE_PATH sc),
                Check_call (clone_cmd sc) (REPO_CACHE_PATH sc),
                Print (tag sc @ ''Command failed: '' @ clone_cmd sc),
                Print (tag sc @ ''Cloning failed. Please check your internet connection or git configuration.''),
                Print (tag sc @ ''Critical Error: Could not update reference repository. Aborting sync.'')]\<rparr>)"
      by (simp add: a2ui_main_unfold a2ui_absent adk_absent start_def)
    show "fst (a2ui_main sc sh (start n)) = Inl (SystemExit 1)" by (simp add: m)
    show "exit_code (fst (a2ui_main sc sh (start n))) = 1" by (simp add: m exit_code_def)
    show "filter is_enter_sync (trace (snd (a2ui_main sc sh (start n)))) = []" by (simp add: m)
  }
qed



lemma sync_directory_result:
  assumes ok: "sync_directory sc src_rel dest_rel True s = (Inr (), s')"
      and src: "lookup (REPO_CACHE_PATH sc @ rel src_rel) (fs s) = Some n"
      and apart: "\<not> prefix (REPO_CACHE_PATH sc @ rel src_rel) (SKILL_ROOT sc @ rel dest_rel)"
                 "\<not> prefix (SKILL_ROOT sc @ rel dest_rel) (REPO_CACHE_PATH sc @ rel src_rel)"
  shows "\<exists>n0. place (SKILL_ROOT sc @ rel dest_rel) (copy_node ignore_names n) n0 = Inr (fs s')
            \<and> lookup (REPO_CACHE_PATH sc @ rel src_rel) n0 = Some n"
proof (cases "lookup (SKILL_ROOT sc @ rel dest_rel) (fs s)")
  case None
  with ok src show ?thesis
    by (auto simp: sync_directory_def Let_def bind_emit bind_log bind_path_exists
          copytree_def bind_ret split: option.splits node.splits sum.splits if_splits)
next
  case (Some d)
  have fr: "lookup (REPO_CACHE_PATH sc @ rel src_rel)
              (remove_tree (SKILL_ROOT sc @ rel dest_rel) (fs s)) = Some n"
    using lookup_remove_tree_frame[OF apart(2) apart(1)] src by simp
  from ok src Some fr show ?thesis
    by (auto simp: sync_directory_def Let_def bind_emit bind_log bind_path_exists
          copytree_def bind_rmtree
          split: option.splits node.splits sum.splits if_splits)
qed

section \<open>Claims about the update scripts\<close>

text \<open>
  C1 at a cache directory that exists without being a working copy (it holds one
  stray file and no \<open>.git\<close>): the A2UI cache manager runs \<open>git pull\<close> only, removes
  nothing, clones nothing and returns \<open>True\<close> over the unchanged directory. On the same
  input the ADK cache manager removes the directory and clones.
\<close>

theorem a2ui_keeps_invalid_cache:
  "lookup (REPO_CACHE_PATH example_a2ui) (invalid_cache_fs ''a2ui'')
     = Some (Dir [(''notes.txt'', File ''x'')])
   \<and> fst (a2ui_ensure_repo_updated example_a2ui always_fails (start (invalid_cache_fs ''a2ui'')))
     = Inr True
   \<and> filter is_check_call
       (trace (snd (a2ui_ensure_repo_updated example_a2ui always_fails
                      (start (invalid_cache_fs ''a2ui'')))))
     = [Check_call ''git pull'' (REPO_CACHE_PATH example_a2ui)]
   \<and> Rmtree (REPO_CACHE_PATH example_a2ui)
       \<notin> set (trace (snd (a2ui_ensure_repo_updated example_a2ui always_fails
                             (start (invalid_cache_fs ''a2ui'')))))
   \<and> fs (snd (a2ui_ensure_repo_updated example_a2ui always_fails
                 (start (invalid_cache_fs ''a2ui''))))
     = invalid_cache_fs ''a2ui''
   \<and> filter is_check_call
       (trace (snd (adk_ensure_repo_updated example_script always_fails
                      (start (invalid_cache_fs ''adk'')))))
     = [Check_call (clone_cmd example_script) (REPO_CACHE_PATH example_script)]
   \<and> Rmtree (REPO_CACHE_PATH example_script)
       \<in> set (trace (snd (adk_ensure_repo_updated example_script always_fails
                             (start (invalid_cache_fs ''adk'')))))"
  by code_simp

text \<open>
  C2. Whenever \<open>sync_directory\<close> returns normally for a mapping whose source exists, the
  destination is exactly the copy of the source tree without the entries named
  \<open>node_modules\<close>, \<open>.git\<close>, \<open>__pycache__\<close> or \<open>.DS_Store\<close>: below the destination, a
  path with no ignored component leads to what the source has there, every other path
  leads to nothing (so nothing of the former destination is left), no ignored name
  occurs at any depth, and the source is as before. Source and destination are taken to
  lie apart, neither inside the other, as the cache and the skill folder do.
\<close>

theorem sync_directory_exact:
  assumes ok: "sync_directory sc src_rel dest_rel True s = (Inr (), s')"
      and src: "lookup (REPO_CACHE_PATH sc @ rel src_rel) (fs s) = Some n"
      and apart: "\<not> prefix (REPO_CACHE_PATH sc @ rel src_rel) (SKILL_ROOT sc @ rel dest_rel)"
                 "\<not> prefix (SKILL_ROOT sc @ rel dest_rel) (REPO_CACHE_PATH sc @ rel src_rel)"
  shows "lookup (SKILL_ROOT sc @ rel dest_rel) (fs s') = Some (copy_node ignore_names n)
       \<and> (\<forall>q. lookup (SKILL_ROOT sc @ rel dest_rel @ q) (fs s') =
               (if set q \<inter> set ignore_names = {}
                then map_option (copy_node ignore_names)
                       (lookup (REPO_CACHE_PATH sc @ rel src_rel @ q) (fs s))
                else None))
       \<and> set (names (copy_node ignore_names n)) \<inter> set ignore_names = {}
       \<and> lookup (REPO_CACHE_PATH sc @ rel src_rel) (fs s') = Some n"
proof -
  from sync_directory_result[OF ok src apart] obtain n0
    where pl: "place (SKILL_ROOT sc @ rel dest_rel) (copy_node ignore_names n) n0 = Inr (fs s')"
      and n0: "lookup (REPO_CACHE_PATH sc @ rel src_rel) n0 = Some n" by blast
  have d: "lookup (SKILL_ROOT sc @ rel dest_rel) (fs s') = Some (copy_node ignore_names n)"
    using lookup_place[OF pl] .
  have "lookup ((SKILL_ROOT sc @ rel dest_rel) @ q) (fs s') =
               (if set q \<inter> set ignore_names = {}
                then map_option (copy_node ignore_names)
                       (lookup ((REPO_CACHE_PATH sc @ rel src_rel) @ q) (fs s))
                else None)" for q
    unfolding lookup_append[of "SKILL_ROOT sc @ rel dest_rel"]
      lookup_append[of "REPO_CACHE_PATH sc @ rel src_rel"]
    by (simp only: d src option.case lookup_copy_node)
  moreover have "lookup (REPO_CACHE_PATH sc @ rel src_rel) (fs s') = Some n"
    using lookup_place_frame[OF pl apart(2) apart(1)] n0 by simp
  ultimately show ?thesis using d names_copy_node by simp
qed

theorem sync_directory_exact_witness:
  "lookup (REPO_CACHE_PATH example_script @ rel ''docs'') (fs (start example_fs))
     = Some (Dir [(''a.md'', File ''A''),
                  (''node_modules'', Dir [(''m.js'', File ''M'')]),
                  (''sub'', Dir [(''.DS_Store'', File ''D''), (''b.md'', File ''B'')])])
   \<and> lookup (SKILL_ROOT example_script @ rel ''docs'') (fs (start example_fs))
     = Some (Dir [(''old.md'', File ''O'')])
   \<and> lookup (SKILL_ROOT example_script @ rel ''docs'')
         (fs (snd (sync_directory example_script ''docs'' ''docs'' True (start example_fs))))
     = Some (Dir [(''a.md'', File ''A''), (''sub'', Dir [(''b.md'', File ''B'')])])"
proof -
  let ?s' = "snd (sync_directory example_script ''docs'' ''docs'' True (start example_fs))"
  let ?n = "Dir [(''a.md'', File ''A''),
                 (''node_modules'', Dir [(''m.js'', File ''M'')]),
                 (''sub'', Dir [(''.DS_Store'', File ''D''), (''b.md'', File ''B'')])]"
  have r: "fst (sync_directory example_script ''docs'' ''docs'' True (start example_fs)) = Inr ()"
    by code_simp
  have ok: "sync_directory example_script ''docs'' ''docs'' True (start example_fs) = (Inr (), ?s')"
    using r by (simp add: prod_eq_iff)
  have src: "lookup (REPO_CACHE_PATH example_script @ rel ''docs'') (fs (start example_fs)) = Some ?n"
    by code_simp
  have old: "lookup (SKILL_ROOT example_script @ rel ''docs'') (fs (start example_fs))
     = Some (Dir [(''old.md'', File ''O'')])"
    by code_simp
  have a1: "\<not> prefix (REPO_CACHE_PATH example_script @ rel ''docs'')
                     (SKILL_ROOT example_script @ rel ''docs'')"
    by code_simp
  have a2: "\<not> prefix (SKILL_ROOT example_script @ rel ''docs'')
                     (REPO_CACHE_PATH example_script @ rel ''docs'')"
    by code_simp
  have c: "copy_node ignore_names ?n
             = Dir [(''a.md'', File ''A''), (''sub'', Dir [(''b.md'', File ''B'')])]"
    by code_simp
  from sync_directory_exact[OF ok src a1 a2] have
    "lookup (SKILL_ROOT example_script @ rel ''docs'') (fs ?s') = Some (copy_node ignore_names ?n)"
    by blast
  with src old c show ?thesis by simp
qed

text \<open>
  C6, as amended. When the cache directory is absent at the start of a run of either
  script: if the directory can be created, the run makes exactly one \<open>check_call\<close>,
  the clone, and when that clone fails the run ends in \<open>sys.exit(1)\<close> without having
  entered \<open>sync_directory\<close>; if creating the directory raises, no command is run at
  all, and the run ends with exit status 1 without having entered \<open>sync_directory\<close>.
\<close>

theorem absent_cache_single_clone:
  assumes "lookup (REPO_CACHE_PATH sc) n = None"
  shows "absent_cache_outcome sc sh n (adk_main sc sh (start n))
       \<and> absent_cache_outcome sc sh n (a2ui_main sc sh (start n))"
  unfolding absent_cache_outcome_def
  using adk_main_absent[OF assms, of sh] a2ui_main_absent[OF assms, of sh] by blast

theorem absent_cache_single_clone_witness:
  "lookup (REPO_CACHE_PATH example_script) (Dir []) = None
   \<and> absent_cache_outcome example_script always_fails (Dir [])
        (adk_main example_script always_fails (start (Dir [])))
   \<and> fst (adk_main example_script always_fails (start (Dir []))) = Inl (SystemExit 1)
   \<and> filter is_check_call (trace (snd (adk_main example_script always_fails (start (Dir [])))))
        = [Check_call (clone_cmd example_script) (REPO_CACHE_PATH example_script)]"
proof -
  have h: "lookup (REPO_CACHE_PATH example_script) (Dir []) = None" by code_simp
  have r: "fst (adk_main example_script always_fails (start (Dir []))) = Inl (SystemExit 1)" by code_simp
  have c: "filter is_check_call (trace (snd (adk_main example_script always_fails (start (Dir [])))))
        = [Check_call (clone_cmd example_script) (REPO_CACHE_PATH example_script)]" by code_simp
  from absent_cache_single_clone[OF h, of always_fails] h r c show ?thesis by blast
qed

text \<open>
  C6 as stated fails when an ancestor of the cache path is a regular file: the cache
  directory is absent, \<open>mkdir\<close> raises, and the clone is never invoked.
\<close>

theorem absent_cache_no_clone_counterexample:
  "lookup (REPO_CACHE_PATH example_script) blocked_fs = None
   \<and> filter is_check_call (trace (snd (adk_main example_script always_succeeds (start blocked_fs)))) = []"
  by code_simp



text \<open>
  C10, as amended. When the cache path is absent, can be created, and the clone fails
  leaving the new directory as it is, both cache managers make the directory before the
  clone, return \<open>False\<close> and leave the empty directory behind. Every later run then
  takes the cache-present branch: the A2UI script only pulls there and returns \<open>True\<close>,
  the ADK script removes the directory and clones again.
\<close>

theorem failed_clone_leaves_cache:
  assumes absent: "lookup (REPO_CACHE_PATH sc) n = None"
      and created: "place (REPO_CACHE_PATH sc) (Dir []) n = Inr n1"
      and fails: "sh (clone_cmd sc) (REPO_CACHE_PATH sc) n1 = (False, n1)"
  shows "adk_ensure_repo_updated sc sh (start n) = a2ui_ensure_repo_updated sc sh (start n)
       \<and> a2ui_ensure_repo_updated sc sh (start n) =
           (Inr False,
            \<lparr>fs = n1,
             trace = [Print (not_found_msg sc), Mkdir (REPO_CACHE_PATH sc),
                      Check_call (clone_cmd sc) (REPO_CACHE_PATH sc),
                      Print (tag sc @ ''Command failed: '' @ clone_cmd sc),
                      Print (tag sc @ ''Cloning failed. Please check your internet connection or git configuration.'')]\<rparr>)
       \<and> lookup (REPO_CACHE_PATH sc) n1 = Some (Dir [])
       \<and> (\<forall>sh2. hd (trace (snd (a2ui_ensure_repo_updated sc sh2 (start n1)))) = Print (found_msg sc)
                \<and> fst (a2ui_ensure_repo_updated sc sh2 (start n1)) = Inr True
                \<and> filter is_check_call (trace (snd (a2ui_ensure_repo_updated sc sh2 (start n1))))
                    = [Check_call ''git pull'' (REPO_CACHE_PATH sc)])
       \<and> (\<forall>sh2. hd (trace (snd (adk_ensure_repo_updated sc sh2 (start n1)))) = Print (found_msg sc)
                \<and> Rmtree (REPO_CACHE_PATH sc)
                    \<in> set (trace (snd (adk_ensure_repo_updated sc sh2 (start n1))))
                \<and> filter is_check_call (trace (snd (adk_ensure_repo_updated sc sh2 (start n1))))
                    = [Check_call (clone_cmd sc) (REPO_CACHE_PATH sc)])"
proof -
  have abs': "lookup (REPO_CACHE_PATH sc) (fs (start n)) = None" using absent by (simp add: start_def)
  have ne: "REPO_CACHE_PATH sc \<noteq> []" using absent by auto
  have d1: "lookup (REPO_CACHE_PATH sc) n1 = Some (Dir [])" using lookup_place[OF created] .
  have d1': "lookup (REPO_CACHE_PATH sc) (fs (start n1)) = Some (Dir [])"
    using d1 by (simp add: start_def)
  have nogit: "lookup (REPO_CACHE_PATH sc @ [''.git'']) (fs (start n1)) = None"
    using d1 by (simp add: lookup_append start_def)
  have 1: "adk_ensure_repo_updated sc sh (start n) = a2ui_ensure_repo_updated sc sh (start n)"
    using a2ui_absent[OF abs'] by simp
  have 2: "a2ui_ensure_repo_updated sc sh (start n) =
           (Inr False,
            \<lparr>fs = n1,
             trace = [Print (not_found_msg sc), Mkdir (REPO_CACHE_PATH sc),
                      Check_call (clone_cmd sc) (REPO_CACHE_PATH sc),
                      Print (tag sc @ ''Command failed: '' @ clone_cmd sc),
                      Print (tag sc @ ''Cloning failed. Please check your internet connection or git configuration.'')]\<rparr>)"
    using created fails by (simp add: a2ui_absent[OF abs'] adk_absent[OF abs']) (simp add: start_def)
  have 3: "hd (trace (snd (a2ui_ensure_repo_updated sc sh2 (start n1)))) = Print (found_msg sc)
                \<and> fst (a2ui_ensure_repo_updated sc sh2 (start n1)) = Inr True
                \<and> filter is_check_call (trace (snd (a2ui_ensure_repo_updated sc sh2 (start n1))))
                    = [Check_call ''git pull'' (REPO_CACHE_PATH sc)]" for sh2
    by (simp add: a2ui_present[OF d1']) (simp add: start_def)
  have 4: "hd (trace (snd (adk_ensure_repo_updated sc sh2 (start n1)))) = Print (found_msg sc)
                \<and> Rmtree (REPO_CACHE_PATH sc)
                    \<in> set (trace (snd (adk_ensure_repo_updated sc sh2 (start n1))))
                \<and> filter is_check_call (trace (snd (adk_ensure_repo_updated sc sh2 (start n1))))
                    = [Check_call (clone_cmd sc) (REPO_CACHE_PATH sc)]" for sh2
  proof -
    from adk_invalid[OF d1' nogit ne, of sh2] obtain n2 where
      "adk_ensure_repo_updated sc sh2 (start n1) =
             (Inr (fst (sh2 (clone_cmd sc) (REPO_CACHE_PATH sc) n2)),
              \<lparr>fs = snd (sh2 (clone_cmd sc) (REPO_CACHE_PATH sc) n2),
               trace = trace (start n1) @
                 [Print (found_msg sc),
                  Print (tag sc @ ''Cache directory exists but is not a git repo. Re-cloning...''),
                  Rmtree (REPO_CACHE_PATH sc), Mkdir (REPO_CACHE_PATH sc),
                  Check_call (clone_cmd sc) (REPO_CACHE_PATH sc)]
                 @ (if fst (sh2 (clone_cmd sc) (REPO_CACHE_PATH sc) n2) then []
                    else [Print (tag sc @ ''Command failed: '' @ clone_cmd sc)])\<rparr>)"
      by blast
    then show ?thesis by (simp add: start_def)
  qed
  from 1 2 d1 3 4 show ?thesis by blast
qed

theorem failed_clone_leaves_cache_witness:
  "lookup (REPO_CACHE_PATH example_script) (Dir []) = None
   \<and> place (REPO_CACHE_PATH example_script) (Dir []) (Dir [])
       = Inr (tree_at (REPO_CACHE_PATH example_script) (Dir []))
   \<and> always_fails (clone_cmd example_script) (REPO_CACHE_PATH example_script)
        (tree_at (REPO_CACHE_PATH example_script) (Dir []))
       = (False, tree_at (REPO_CACHE_PATH example_script) (Dir []))
   \<and> fst (adk_ensure_repo_updated example_script always_fails (start (Dir []))) = Inr False
   \<and> lookup (REPO_CACHE_PATH example_script) (tree_at (REPO_CACHE_PATH example_script) (Dir []))
       = Some (Dir [])"
proof -
  have a: "lookup (REPO_CACHE_PATH example_script) (Dir []) = None" by code_simp
  have c: "place (REPO_CACHE_PATH example_script) (Dir []) (Dir [])
       = Inr (tree_at (REPO_CACHE_PATH example_script) (Dir []))" by code_simp
  have f: "always_fails (clone_cmd example_script) (REPO_CACHE_PATH example_script)
        (tree_at (REPO_CACHE_PATH example_script) (Dir []))
       = (False, tree_at (REPO_CACHE_PATH example_script) (Dir []))"
    by (simp add: always_fails_def)
  from failed_clone_leaves_cache[of example_script "Dir []"
      "tree_at (REPO_CACHE_PATH example_script) (Dir [])" always_fails, OF a c f] a c f
  show ?thesis by simp
qed

text \<open>
  C10 as stated fails for the ADK script: in the run after a failed first clone the
  cache-present branch finds no \<open>.git\<close>, removes the directory and clones afresh.
\<close>

theorem failed_clone_then_reclone_counterexample:
  "lookup (REPO_CACHE_PATH example_script) (Dir []) = None
   \<and> fst (adk_ensure_repo_updated example_script always_fails (start (Dir []))) = Inr False
   \<and> lookup (REPO_CACHE_PATH example_script) (fs after_failed_clone) = Some (Dir [])
   \<and> filter is_check_call
       (trace (snd (adk_ensure_repo_updated example_script always_succeeds
                      (start (fs after_failed_clone)))))
     = [Check_call (clone_cmd example_script) (REPO_CACHE_PATH example_script)]
   \<and> Rmtree (REPO_CACHE_PATH example_script)
       \<in> set (trace (snd (adk_ensure_repo_updated example_script always_succeeds
                             (start (fs after_failed_clone)))))"
  by code_simp

section \<open>The steps of prepare\_agent\<close>

lemma baseline_distinct: "remdups baseline_ignores = baseline_ignores"
  by code_simp

lemma show_nat_15: "show_nat (length baseline_ignores) = ''15''"
  by code_simp

lemma show_nat_2: "show_nat (Suc (Suc 0)) = ''2''"
  by code_simp

lemma llm_suggestions_pure:
  "\<exists>l. fst (llm_suggestions w files s) = Inr l
       \<and> fst (llm_suggestions w files' s') = Inr l
       \<and> fs (snd (llm_suggestions w files s)) = fs s"
  by (cases "generate_content w")
     (auto simp: llm_suggestions_def get_llm_ignores_def bind_emit ret_def split: option.splits)

lemma bind_llm_suggestions:
  assumes "fst (llm_suggestions w files' s') = Inr l"
  shows "\<exists>s1. fs s1 = fs s \<and> bind_run (llm_suggestions w files) f s = f l s1"
proof -
  from llm_suggestions_pure[of w files s files' s'] assms
  have "fst (llm_suggestions w files s) = Inr l" "fs (snd (llm_suggestions w files s)) = fs s"
    by auto
  then show ?thesis
    by (cases "llm_suggestions w files s") (auto simp: bind_run_def)
qed

lemma ignore_step_new:
  assumes dir: "lookup dir (fs s) = Some (Dir es)" and new: "map_of es ''.ae_ignore'' = None"
  shows "ignore_step [] dir s =
          (Inr (), s\<lparr>trace := trace s @ [Print ''Adding 15 patterns to .ae_ignore...''],
                     fs := put (dir @ [''.ae_ignore'']) (File (ignore_block [] baseline_ignores)) (fs s)\<rparr>)"
proof -
  have dir': "lookup dir (fs (s\<lparr>trace := t\<rparr>)) = Some (Dir es)" for t using dir by simp
  have ne: "baseline_ignores \<noteq> []" by (simp add: baseline_ignores_def)
  show ?thesis
    using new ne
    by (simp add: ignore_step_def Let_def bind_path_exists lookup_child[OF dir] bind_ret
          baseline_distinct show_nat_15 bind_emit append_text_child[OF dir'])
qed

lemma requirements_step_new:
  assumes dir: "lookup dir (fs s) = Some (Dir es)" and new: "map_of es ''requirements.txt'' = None"
  shows "requirements_step dir s =
          (Inr (), s\<lparr>trace := trace s @ [Print adding_dep_msg],
                     fs := put (dir @ [''requirements.txt'']) (File dep_block) (fs s)\<rparr>)"
proof -
  have dir': "lookup dir (fs (s\<lparr>trace := t\<rparr>)) = Some (Dir es)" for t using dir by simp
  show ?thesis
    using new
    by (simp add: requirements_step_def Let_def bind_path_exists lookup_child[OF dir] bind_ret
          bind_emit append_text_child[OF dir'] adding_dep_msg_def)
qed

lemma env_step_new:
  assumes dir: "lookup dir (fs s) = Some (Dir es)" and new: "map_of es ''.env'' = None"
  shows "env_step dir s =
          (Inr (), s\<lparr>trace := trace s @ [Print ''Adding 2 telemetry variables to .env...''],
                     fs := put (dir @ [''.env'']) (File (env_block telemetry_vars)) (fs s)\<rparr>)"
proof -
  have dir': "lookup dir (fs (s\<lparr>trace := t\<rparr>)) = Some (Dir es)" for t using dir by simp
  have tv: "filter (\<lambda>kv. True) telemetry_vars = telemetry_vars" by simp
  have ne: "telemetry_vars \<noteq> []" "length telemetry_vars = Suc (Suc 0)" by (simp_all add: telemetry_vars_def)
  show ?thesis
    using new ne
    by (simp add: env_step_def Let_def bind_path_exists lookup_child[OF dir] bind_ret
          bind_emit append_text_child[OF dir'] show_nat_2)
qed

lemma env_step_existing:
  assumes dir: "lookup dir (fs s) = Some (Dir es)" and fl: "map_of es ''.env'' = Some (File c)"
  shows "lookup (dir @ [''.env'']) (fs (snd (env_step dir s)))
          = Some (File (c @ (if filter (\<lambda>kv. parse_env (universal_newlines c) (fst kv) = None)
                                  telemetry_vars \<noteq> []
                             then env_block (filter (\<lambda>kv. parse_env (universal_newlines c) (fst kv) = None)
                                  telemetry_vars)
                             else [])))"
proof -
  have dir': "lookup dir (fs (s\<lparr>trace := t\<rparr>)) = Some (Dir es)" for t using dir by simp
  have look: "lookup (dir @ [''.env'']) (put (dir @ [''.env'']) t (fs s)) = Some t" for t
    using lookup_place[OF place_put_child[OF dir]] .
  have ex: "lookup (dir @ [''.env'']) (fs s) = Some (File c)"
    using lookup_child[OF dir] fl by simp
  show ?thesis
    using fl ex look
    by (simp add: env_step_def Let_def bind_path_exists bind_read_text_child[OF dir] bind_assoc
          bind_ret bind_emit append_text_child[OF dir'] emit_def)
qed

lemma parse_ignore_block: "set (parse_ignores (universal_newlines (ignore_block [] baseline_ignores)))
    = set baseline_ignores"
  by code_simp

lemma parse_ignore_block': "parse_ignores (universal_newlines (ignore_block [] baseline_ignores))
    = sort baseline_ignores"
  by code_simp

lemma parse_dep_block: "parse_ignores (universal_newlines dep_block) = [mandatory_dep]"
  by code_simp

lemma readlines_env_block:
  "readlines (universal_newlines (env_block telemetry_vars)) =
     [NL, ''# Added by Agent Engine Deployer Skill'' @ NL,
      ''GOOGLE_CLOUD_AGENT_ENGINE_ENABLE_TELEMETRY=true'' @ NL,
      ''OTEL_INSTRUMENTATION_GENAI_CAPTURE_MESSAGE_CONTENT=true'' @ NL]"
  by code_simp

lemma env_line_1: "env_line NL m = m"
  by (simp add: env_line_def)

lemma env_line_2: "env_line (''# Added by Agent Engine Deployer Skill'' @ NL) m = m"
  by (simp add: env_line_def)

lemma strip_key1: "strip ''GOOGLE_CLOUD_AGENT_ENGINE_ENABLE_TELEMETRY'' = ''GOOGLE_CLOUD_AGENT_ENGINE_ENABLE_TELEMETRY''"
  by code_simp

lemma strip_key2: "strip ''OTEL_INSTRUMENTATION_GENAI_CAPTURE_MESSAGE_CONTENT'' = ''OTEL_INSTRUMENTATION_GENAI_CAPTURE_MESSAGE_CONTENT''"
  by code_simp

lemma strip_true: "strip (''true'' @ NL) = ''true''"
  by code_simp

lemma starts1: "\<not> startswith (strip (''GOOGLE_CLOUD_AGENT_ENGINE_ENABLE_TELEMETRY=true'' @ NL)) ''#''"
  by code_simp

lemma starts2: "\<not> startswith (strip (''OTEL_INSTRUMENTATION_GENAI_CAPTURE_MESSAGE_CONTENT=true'' @ NL)) ''#''"
  by code_simp

lemma env_line_3: "env_line (''GOOGLE_CLOUD_AGENT_ENGINE_ENABLE_TELEMETRY=true'' @ NL) m
      = m(''GOOGLE_CLOUD_AGENT_ENGINE_ENABLE_TELEMETRY'' \<mapsto> ''true'')"
  using starts1 strip_key1 strip_true by (simp add: env_line_def)

lemma env_line_4: "env_line (''OTEL_INSTRUMENTATION_GENAI_CAPTURE_MESSAGE_CONTENT=true'' @ NL) m
      = m(''OTEL_INSTRUMENTATION_GENAI_CAPTURE_MESSAGE_CONTENT'' \<mapsto> ''true'')"
  using starts2 strip_key2 strip_true by (simp add: env_line_def)

lemma parse_env_block:
  "parse_env (universal_newlines (env_block telemetry_vars)) = map_of telemetry_vars"
  unfolding parse_env_def readlines_env_block
  using env_line_1 env_line_2 env_line_3 env_line_4
  by (auto simp: telemetry_vars_def fun_eq_iff)

lemma readlines_env_tail_both:
  "readlines (universal_newlines (tl (env_block telemetry_vars))) =
     [''# Added by Agent Engine Deployer Skill'' @ NL,
      ''GOOGLE_CLOUD_AGENT_ENGINE_ENABLE_TELEMETRY=true'' @ NL,
      ''OTEL_INSTRUMENTATION_GENAI_CAPTURE_MESSAGE_CONTENT=true'' @ NL]"
  by code_simp

lemma readlines_env_tail_first:
  "readlines (universal_newlines (tl (env_block [hd telemetry_vars]))) =
     [''# Added by Agent Engine Deployer Skill'' @ NL,
      ''GOOGLE_CLOUD_AGENT_ENGINE_ENABLE_TELEMETRY=true'' @ NL]"
  by code_simp

lemma readlines_env_tail_second:
  "readlines (universal_newlines (tl (env_block (tl telemetry_vars)))) =
     [''# Added by Agent Engine Deployer Skill'' @ NL,
      ''OTEL_INSTRUMENTATION_GENAI_CAPTURE_MESSAGE_CONTENT=true'' @ NL]"
  by code_simp

lemma env_block_Cons: "env_block nv = CHR 0x0A # tl (env_block nv)"
  by (simp add: env_block_def)

lemma new_vars_cases:
  "filter (\<lambda>kv. m (fst kv) = None) telemetry_vars = telemetry_vars
   \<and> m ''GOOGLE_CLOUD_AGENT_ENGINE_ENABLE_TELEMETRY'' = None
   \<and> m ''OTEL_INSTRUMENTATION_GENAI_CAPTURE_MESSAGE_CONTENT'' = None
   \<or> filter (\<lambda>kv. m (fst kv) = None) telemetry_vars = [hd telemetry_vars]
   \<and> m ''GOOGLE_CLOUD_AGENT_ENGINE_ENABLE_TELEMETRY'' = None
   \<or> filter (\<lambda>kv. m (fst kv) = None) telemetry_vars = tl telemetry_vars
   \<and> m ''OTEL_INSTRUMENTATION_GENAI_CAPTURE_MESSAGE_CONTENT'' = None
   \<or> filter (\<lambda>kv. m (fst kv) = None) telemetry_vars = []"
  by (simp add: telemetry_vars_def)

lemma env_block_keeps_keys:
  assumes nv: "nv = filter (\<lambda>kv. m (fst kv) = None) telemetry_vars" and k: "m k = Some v"
  shows "fold env_line (readlines (universal_newlines (tl (env_block nv)))) m k = Some v"
proof -
  have f1: "fold env_line [a] m = env_line a m" for a by simp
  have f2: "fold env_line [a, b] m = env_line b (env_line a m)" for a b by simp
  have f3: "fold env_line [a, b, c] m = env_line c (env_line b (env_line a m))" for a b c by simp
  consider
      (both) "nv = telemetry_vars" "m ''GOOGLE_CLOUD_AGENT_ENGINE_ENABLE_TELEMETRY'' = None"
             "m ''OTEL_INSTRUMENTATION_GENAI_CAPTURE_MESSAGE_CONTENT'' = None"
    | (first) "nv = [hd telemetry_vars]" "m ''GOOGLE_CLOUD_AGENT_ENGINE_ENABLE_TELEMETRY'' = None"
    | (second) "nv = tl telemetry_vars" "m ''OTEL_INSTRUMENTATION_GENAI_CAPTURE_MESSAGE_CONTENT'' = None"
    | (neither) "nv = []"
    using new_vars_cases[of m] nv by auto
  then show ?thesis
  proof cases
    case both
    have "fold env_line (readlines (universal_newlines (tl (env_block nv)))) m
        = m(''GOOGLE_CLOUD_AGENT_ENGINE_ENABLE_TELEMETRY'' \<mapsto> ''true'',
            ''OTEL_INSTRUMENTATION_GENAI_CAPTURE_MESSAGE_CONTENT'' \<mapsto> ''true'')"
      unfolding both(1) readlines_env_tail_both f3 env_line_2 env_line_3 env_line_4 ..
    with k both show ?thesis by auto
  next
    case first
    have "fold env_line (readlines (universal_newlines (tl (env_block nv)))) m
        = m(''GOOGLE_CLOUD_AGENT_ENGINE_ENABLE_TELEMETRY'' \<mapsto> ''true'')"
      unfolding first(1) readlines_env_tail_first f2 env_line_2 env_line_3 ..
    with k first show ?thesis by auto
  next
    case second
    have "fold env_line (readlines (universal_newlines (tl (env_block nv)))) m
        = m(''OTEL_INSTRUMENTATION_GENAI_CAPTURE_MESSAGE_CONTENT'' \<mapsto> ''true'')"
      unfolding second(1) readlines_env_tail_second f2 env_line_2 env_line_4 ..
    with k second show ?thesis by auto
  next
    case neither
    have r: "readlines (universal_newlines (tl (env_block []))) =
            [''# Added by Agent Engine Deployer Skill'' @ NL]" by code_simp
    have "fold env_line (readlines (universal_newlines (tl (env_block nv)))) m = m"
      unfolding neither r f1 env_line_2 ..
    with k show ?thesis by simp
  qed
qed

lemma only_appends_llm_suggestions: "only_appends (llm_suggestions w files)"
  by (rule only_appends_same) (use llm_suggestions_pure[of w files] in auto)

lemma only_appends_ignore_step: "only_appends (ignore_step llm dir)"
  unfolding ignore_step_def Let_def
  by (intro only_appends_bind only_appends_if only_appends_path_exists only_appends_read_text
        only_appends_ret only_appends_emit only_appends_append_text)

lemma only_appends_requirements_step: "only_appends (requirements_step dir)"
  unfolding requirements_step_def Let_def
  by (intro only_appends_bind only_appends_if only_appends_path_exists only_appends_read_text
        only_appends_ret only_appends_emit only_appends_append_text)

lemma only_appends_env_step: "only_appends (env_step dir)"
  unfolding env_step_def Let_def
  by (intro only_appends_bind only_appends_if only_appends_path_exists only_appends_read_text
        only_appends_ret only_appends_emit only_appends_append_text)

lemma only_appends_prepare_agent: "only_appends (prepare_agent w dir)"
  unfolding prepare_agent_def
  apply (intro only_appends_bind only_appends_emit only_appends_listdir)
  subgoal for a b
    by (cases b)
       (auto intro!: only_appends_bind only_appends_emit only_appends_llm_suggestions
          only_appends_ignore_step only_appends_requirements_step only_appends_env_step)
  done

section \<open>Claims about prepare\_agent\<close>

text \<open>
  C4 at the suggestion set holding the one name \<open>#notes.py#\<close>, which \<open>get_llm_ignores\<close>
  returns for a response made of that line: the first run on an empty directory
  writes the name, the second run skips its line as a comment when reading the file
  back, finds the name missing and appends it again under a second marker. Without
  a suggestion the second run leaves the file system as the first run left it.
\<close>

theorem ignore_step_repeats_comment_like_entry:
  "clean_lines ''#notes.py#'' = [''#notes.py#'']
   \<and> fst (ignore_step [''#notes.py#''] [''agent''] (start empty_agent_fs)) = Inr ()
   \<and> fst (ignore_step [''#notes.py#''] [''agent''] first_ignore_run) = Inr ()
   \<and> count_list (readlines (file_text [''agent'', ''.ae_ignore''] first_ignore_run))
        (''#notes.py#'' @ NL) = 1
   \<and> count_list (readlines (file_text [''agent'', ''.ae_ignore''] second_ignore_run))
        (''#notes.py#'' @ NL) = 2
   \<and> file_text [''agent'', ''.ae_ignore''] second_ignore_run
       = file_text [''agent'', ''.ae_ignore''] first_ignore_run
         @ NL @ ''# Added by Agent Engine Deployer Skill (Hybrid Analysis)'' @ NL
         @ ''#notes.py#'' @ NL
   \<and> fs (snd (ignore_step [] [''agent''] (snd (ignore_step [] [''agent''] (start empty_agent_fs)))))
       = fs (snd (ignore_step [] [''agent''] (start empty_agent_fs)))"
  by code_simp

text \<open>
  C5. Run on an empty target directory with no suggestion from the model,
  \<open>prepare_agent\<close> returns normally and leaves exactly three files in the directory:
  an ignore file whose entries are the baseline patterns, a requirements file whose
  only entry is the mandatory dependency, and an environment file that defines exactly
  the two telemetry variables.
\<close>

theorem prepare_empty_directory:
  assumes empty: "lookup agent_dir (fs s) = Some (Dir [])"
      and none: "fst (llm_suggestions w [] s) = Inr []"
  shows "fst (prepare_agent w agent_dir s) = Inr ()
       \<and> lookup agent_dir (fs (snd (prepare_agent w agent_dir s)))
           = Some (Dir [(''.ae_ignore'', File (ignore_block [] baseline_ignores)),
                        (''requirements.txt'', File dep_block),
                        (''.env'', File (env_block telemetry_vars))])
       \<and> set (parse_ignores (universal_newlines (ignore_block [] baseline_ignores)))
           = set baseline_ignores
       \<and> parse_ignores (universal_newlines dep_block) = [mandatory_dep]
       \<and> parse_env (universal_newlines (env_block telemetry_vars)) = map_of telemetry_vars"
proof -
  let ?s0 = "s\<lparr>trace := trace s @ [Print (''Preparing agent in: '' @ show_path agent_dir)]\<rparr>"
  let ?K = "\<lambda>llm_ignores.
           bind_run (ignore_step llm_ignores agent_dir) (\<lambda>_.
           bind_run (requirements_step agent_dir) (\<lambda>_.
           bind_run (env_step agent_dir) (\<lambda>_.
             emit (Print (NL @ ''[SUCCESS] Agent is ready for deployment configuration!'')))))"
  have unfold: "prepare_agent w agent_dir s = bind_run (llm_suggestions w []) ?K ?s0"
    using empty
    by (simp add: prepare_agent_def bind_emit bind_listdir)
  from bind_llm_suggestions[OF none, of ?s0 "[]" ?K] obtain s1
    where s1: "fs s1 = fs s" and run: "bind_run (llm_suggestions w []) ?K ?s0 = ?K [] s1"
    by auto
  let ?I = "File (ignore_block [] baseline_ignores)"
  let ?R = "File dep_block"
  let ?E = "File (env_block telemetry_vars)"
  have d1: "lookup agent_dir (fs s1) = Some (Dir [])" using empty s1 by simp
  let ?s2 = "s1\<lparr>trace := trace s1 @ [Print ''Adding 15 patterns to .ae_ignore...''],
                     fs := put (agent_dir @ [''.ae_ignore'']) ?I (fs s1)\<rparr>"
  have i: "ignore_step [] agent_dir s1 = (Inr (), ?s2)"
    using ignore_step_new[OF d1] by simp
  have d2: "lookup agent_dir (fs ?s2) = Some (Dir [(''.ae_ignore'', ?I)])"
    using lookup_put_child[OF d1, of "''.ae_ignore''" ?I] by simp
  let ?s3 = "?s2\<lparr>trace := trace ?s2 @ [Print adding_dep_msg],
                     fs := put (agent_dir @ [''requirements.txt'']) ?R (fs ?s2)\<rparr>"
  have r: "requirements_step agent_dir ?s2 = (Inr (), ?s3)"
    using requirements_step_new[OF d2] by simp
  have d3: "lookup agent_dir (fs ?s3) = Some (Dir [(''.ae_ignore'', ?I), (''requirements.txt'', ?R)])"
    using lookup_put_child[OF d2, of "''requirements.txt''" ?R] by simp
  let ?s4 = "?s3\<lparr>trace := trace ?s3 @ [Print ''Adding 2 telemetry variables to .env...''],
                     fs := put (agent_dir @ [''.env'']) ?E (fs ?s3)\<rparr>"
  have e: "env_step agent_dir ?s3 = (Inr (), ?s4)"
    using env_step_new[OF d3] by simp
  have d4: "lookup agent_dir (fs ?s4)
      = Some (Dir [(''.ae_ignore'', ?I), (''requirements.txt'', ?R), (''.env'', ?E)])"
    using lookup_put_child[OF d3, of "''.env''" ?E] by simp
  have "?K [] s1 = (Inr (), ?s4\<lparr>trace := trace ?s4 @
           [Print (NL @ ''[SUCCESS] Agent is ready for deployment configuration!'')]\<rparr>)"
    by (simp only: bind_run_def i r e prod.case sum.case emit_def)
  with unfold run d4 have
    "fst (prepare_agent w agent_dir s) = Inr ()"
    "lookup agent_dir (fs (snd (prepare_agent w agent_dir s)))
           = Some (Dir [(''.ae_ignore'', ?I), (''requirements.txt'', ?R), (''.env'', ?E)])"
    by simp_all
  with parse_ignore_block parse_dep_block parse_env_block show ?thesis by simp
qed

theorem prepare_empty_directory_witness:
  "lookup [''agent''] (fs (start empty_agent_fs)) = Some (Dir [])
   \<and> fst (llm_suggestions no_llm [] (start empty_agent_fs)) = Inr []
   \<and> fst (prepare_agent no_llm [''agent''] (start empty_agent_fs)) = Inr ()
   \<and> lookup [''agent''] (fs (snd (prepare_agent no_llm [''agent''] (start empty_agent_fs))))
       = Some (Dir [(''.ae_ignore'', File (ignore_block [] baseline_ignores)),
                    (''requirements.txt'', File dep_block),
                    (''.env'', File (env_block telemetry_vars))])"
proof -
  have a: "lookup [''agent''] (fs (start empty_agent_fs)) = Some (Dir [])" by code_simp
  have b: "fst (llm_suggestions no_llm [] (start empty_agent_fs)) = Inr []" by code_simp
  from prepare_empty_directory[OF a b] a b show ?thesis by simp
qed

text \<open>
  C7. Whatever \<open>prepare_agent\<close> does and however it ends, every regular file of the file
  system, the ignore file, the requirements file and the environment file among them,
  afterwards holds its former text followed by what was appended. The environment step
  keeps, for every key the environment file defined before, the value it had.
\<close>

theorem prepare_agent_appends_only:
  "appended_only (fs s) (fs (snd (prepare_agent w agent_dir s)))
   \<and> (\<forall>c. lookup (agent_dir @ [''.env'']) (fs s) = Some (File c) \<longrightarrow>
        (\<exists>suffix. lookup (agent_dir @ [''.env'']) (fs (snd (env_step agent_dir s)))
                     = Some (File (c @ suffix))
           \<and> (\<forall>k v. parse_env (universal_newlines c) k = Some v \<longrightarrow>
                      parse_env (universal_newlines (c @ suffix)) k = Some v)))"
proof (intro conjI allI impI)
  show "appended_only (fs s) (fs (snd (prepare_agent w agent_dir s)))"
    using only_appends_prepare_agent[of w agent_dir] by (simp add: only_appends_def)
next
  fix c assume c: "lookup (agent_dir @ [''.env'']) (fs s) = Some (File c)"
  then have "lookup (agent_dir @ [''.env'']) (fs s) \<noteq> None" by simp
  from git_dir_parent[OF this] obtain es where dir: "lookup agent_dir (fs s) = Some (Dir es)"
    by blast
  have fl: "map_of es ''.env'' = Some (File c)" using lookup_child[OF dir] c by simp
  let ?m = "parse_env (universal_newlines c)"
  let ?nv = "filter (\<lambda>kv. ?m (fst kv) = None) telemetry_vars"
  let ?suffix = "if ?nv \<noteq> [] then env_block ?nv else []"
  have 1: "lookup (agent_dir @ [''.env'']) (fs (snd (env_step agent_dir s)))
             = Some (File (c @ ?suffix))"
    using env_step_existing[OF dir fl] .
  have 2: "parse_env (universal_newlines (c @ ?suffix)) k = Some v" if k: "?m k = Some v" for k v
  proof (cases "?nv \<noteq> []")
    case False
    with k show ?thesis by simp
  next
    case True
    have "parse_env (universal_newlines (c @ env_block ?nv)) =
            fold env_line (readlines (universal_newlines (tl (env_block ?nv)))) ?m"
      using parse_env_append_nl[of c "tl (env_block ?nv)"] env_block_Cons[of ?nv] by simp
    with env_block_keeps_keys[of ?nv ?m k v, OF refl k] True show ?thesis by simp
  qed
  from 1 2 show "\<exists>suffix. lookup (agent_dir @ [''.env'']) (fs (snd (env_step agent_dir s)))
                     = Some (File (c @ suffix))
           \<and> (\<forall>k v. parse_env (universal_newlines c) k = Some v \<longrightarrow>
                      parse_env (universal_newlines (c @ suffix)) k = Some v)"
    by blast
qed

theorem prepare_agent_appends_only_witness:
  "lookup [''agent'', ''.env''] (fs (start custom_env_fs)) = Some (File custom_env)
   \<and> parse_env (universal_newlines custom_env) ''GOOGLE_CLOUD_AGENT_ENGINE_ENABLE_TELEMETRY''
       = Some ''false''
   \<and> (\<exists>suffix. lookup [''agent'', ''.env'']
                   (fs (snd (prepare_agent no_llm [''agent''] (start custom_env_fs))))
                 = Some (File (custom_env @ suffix)))
   \<and> (\<exists>suffix. lookup [''agent'', ''.env''] (fs (snd (env_step [''agent''] (start custom_env_fs))))
                 = Some (File (custom_env @ suffix))
        \<and> parse_env (universal_newlines (custom_env @ suffix))
             ''GOOGLE_CLOUD_AGENT_ENGINE_ENABLE_TELEMETRY'' = Some ''false'')"
proof -
  have a: "lookup ([''agent''] @ [''.env'']) (fs (start custom_env_fs)) = Some (File custom_env)"
    by code_simp
  have b: "parse_env (universal_newlines custom_env) ''GOOGLE_CLOUD_AGENT_ENGINE_ENABLE_TELEMETRY''
       = Some ''false''"
    by code_simp
  from prepare_agent_appends_only[of "start custom_env_fs" no_llm "[''agent'']"]
  have 1: "appended_only (fs (start custom_env_fs))
             (fs (snd (prepare_agent no_llm [''agent''] (start custom_env_fs))))"
    and 2: "\<exists>suffix. lookup ([''agent''] @ [''.env''])
                        (fs (snd (env_step [''agent''] (start custom_env_fs))))
                     = Some (File (custom_env @ suffix))
           \<and> (\<forall>k v. parse_env (universal_newlines custom_env) k = Some v \<longrightarrow>
                      parse_env (universal_newlines (custom_env @ suffix)) k = Some v)"
    using a by blast+
  from 1 a have 3: "\<exists>suffix. lookup ([''agent''] @ [''.env''])
                   (fs (snd (prepare_agent no_llm [''agent''] (start custom_env_fs))))
                 = Some (File (custom_env @ suffix))"
    unfolding appended_only_def by blast
  from 2 b have 4: "\<exists>suffix. lookup ([''agent''] @ [''.env''])
                        (fs (snd (env_step [''agent''] (start custom_env_fs))))
                     = Some (File (custom_env @ suffix))
        \<and> parse_env (universal_newlines (custom_env @ suffix))
             ''GOOGLE_CLOUD_AGENT_ENGINE_ENABLE_TELEMETRY'' = Some ''false''"
    by blast
  from a b 3 4 show ?thesis by simp
qed

text \<open>
  C9. In a target directory, the dependency step leaves an existing requirements file
  alone exactly when its text, as read, contains \<open>google-cloud-aiplatform\<close> somewhere
  and \<open>agent_engines\<close> somewhere, wherever the two occur; when one of them is missing,
  and when there is no requirements file, it appends the comment line and the fixed
  dependency line.
\<close>

theorem requirements_substring_test:
  assumes dir: "lookup agent_dir (fs s) = Some (Dir es)"
  shows "(\<forall>c. map_of es ''requirements.txt'' = Some (File c) \<longrightarrow>
            ((\<exists>p q. universal_newlines c = p @ ''google-cloud-aiplatform'' @ q)
              \<and> (\<exists>p q. universal_newlines c = p @ ''agent_engines'' @ q)
             \<longrightarrow> requirements_step agent_dir s =
                   (Inr (), s\<lparr>trace := trace s @
                      [Print ''requirements.txt already correctly configured.'']\<rparr>))
            \<and> (\<not> ((\<exists>p q. universal_newlines c = p @ ''google-cloud-aiplatform'' @ q)
                    \<and> (\<exists>p q. universal_newlines c = p @ ''agent_engines'' @ q))
             \<longrightarrow> fst (requirements_step agent_dir s) = Inr ()
                 \<and> lookup (agent_dir @ [''requirements.txt''])
                      (fs (snd (requirements_step agent_dir s)))
                    = Some (File (c @ NL @ ''# Mandatory for Agent Engine'' @ NL
                                  @ ''google-cloud-aiplatform[agent_engines,adk]'' @ NL))))
       \<and> (map_of es ''requirements.txt'' = None \<longrightarrow>
            fst (requirements_step agent_dir s) = Inr ()
            \<and> lookup (agent_dir @ [''requirements.txt''])
                 (fs (snd (requirements_step agent_dir s)))
               = Some (File (NL @ ''# Mandatory for Agent Engine'' @ NL
                             @ ''google-cloud-aiplatform[agent_engines,adk]'' @ NL)))"
proof -
  have blk: "dep_block = NL @ ''# Mandatory for Agent Engine'' @ NL
                                  @ ''google-cloud-aiplatform[agent_engines,adk]'' @ NL"
    by (simp add: dep_block_def mandatory_dep_def)
  have ex: "lookup (agent_dir @ [''requirements.txt'']) (fs s) = map_of es ''requirements.txt''"
    using lookup_child[OF dir] .
  have dir': "lookup agent_dir (fs (s\<lparr>trace := t\<rparr>)) = Some (Dir es)" for t
    using dir by simp
  have look: "lookup (agent_dir @ [''requirements.txt''])
                (put (agent_dir @ [''requirements.txt'']) t (fs s)) = Some t" for t
    using lookup_place[OF place_put_child[OF dir]] .
  have 1: "requirements_step agent_dir s =
                   (Inr (), s\<lparr>trace := trace s @
                      [Print ''requirements.txt already correctly configured.'']\<rparr>)"
    if "map_of es ''requirements.txt'' = Some (File c)"
       "(\<exists>p q. universal_newlines c = p @ ''google-cloud-aiplatform'' @ q)
              \<and> (\<exists>p q. universal_newlines c = p @ ''agent_engines'' @ q)" for c
  proof -
    from that(2) have "str_in ''google-cloud-aiplatform'' (universal_newlines c)
                       \<and> str_in ''agent_engines'' (universal_newlines c)"
      unfolding str_in_iff .
    with that(1) ex show ?thesis
      by (simp add: requirements_step_def Let_def bind_path_exists bind_read_text_child[OF dir]
            bind_assoc bind_ret emit_def)
  qed
  have 2: "fst (requirements_step agent_dir s) = Inr ()
                 \<and> lookup (agent_dir @ [''requirements.txt''])
                      (fs (snd (requirements_step agent_dir s)))
                    = Some (File (c @ NL @ ''# Mandatory for Agent Engine'' @ NL
                                  @ ''google-cloud-aiplatform[agent_engines,adk]'' @ NL))"
    if "map_of es ''requirements.txt'' = Some (File c)"
       "\<not> ((\<exists>p q. universal_newlines c = p @ ''google-cloud-aiplatform'' @ q)
              \<and> (\<exists>p q. universal_newlines c = p @ ''agent_engines'' @ q))" for c
  proof -
    from that(2) have "\<not> (str_in ''google-cloud-aiplatform'' (universal_newlines c)
                       \<and> str_in ''agent_engines'' (universal_newlines c))"
      unfolding str_in_iff .
    with that(1) ex look show ?thesis
      by (simp add: requirements_step_def Let_def bind_path_exists bind_read_text_child[OF dir]
            bind_assoc bind_ret bind_emit append_text_child[OF dir'] blk)
  qed
  have 3: "fst (requirements_step agent_dir s) = Inr ()
            \<and> lookup (agent_dir @ [''requirements.txt''])
                 (fs (snd (requirements_step agent_dir s)))
               = Some (File (NL @ ''# Mandatory for Agent Engine'' @ NL
                             @ ''google-cloud-aiplatform[agent_engines,adk]'' @ NL))"
    if "map_of es ''requirements.txt'' = None"
    using that ex look
    by (simp add: requirements_step_def Let_def bind_path_exists
          bind_ret bind_emit append_text_child[OF dir'] blk)
  from 1 2 3 show ?thesis by blast
qed

theorem requirements_substring_test_witness:
  "lookup [''agent''] (fs (start (Dir [(''agent'', Dir [(''requirements.txt'', File split_requirements)])])))
     = Some (Dir [(''requirements.txt'', File split_requirements)])
   \<and> requirements_step [''agent'']
         (start (Dir [(''agent'', Dir [(''requirements.txt'', File split_requirements)])]))
     = (Inr (), \<lparr>fs = Dir [(''agent'', Dir [(''requirements.txt'', File split_requirements)])],
                 trace = [Print ''requirements.txt already correctly configured.'']\<rparr>)"
proof -
  let ?s = "start (Dir [(''agent'', Dir [(''requirements.txt'', File split_requirements)])])"
  have d: "lookup [''agent''] (fs ?s) = Some (Dir [(''requirements.txt'', File split_requirements)])"
    by (simp add: start_def)
  have m: "map_of [(''requirements.txt'', File split_requirements)] ''requirements.txt''
             = Some (File split_requirements)" by simp
  have "str_in ''google-cloud-aiplatform'' (universal_newlines split_requirements)"
    by code_simp
  then have a: "\<exists>p q. universal_newlines split_requirements = p @ ''google-cloud-aiplatform'' @ q"
    unfolding str_in_iff .
  have "str_in ''agent_engines'' (universal_newlines split_requirements)"
    by code_simp
  then have b: "\<exists>p q. universal_newlines split_requirements = p @ ''agent_engines'' @ q"
    unfolding str_in_iff .
  from requirements_substring_test[OF d] m a b
  have "requirements_step [''agent''] ?s =
          (Inr (), ?s\<lparr>trace := trace ?s @
                      [Print ''requirements.txt already correctly configured.'']\<rparr>)"
    by blast
  with d show ?thesis by (simp add: start_def)
qed

section \<open>Failures and their handling\<close>

lemma fst_bind_Inl: "fst (m s) = Inl e \<Longrightarrow> fst (bind_run m f s) = Inl e"
  by (cases "m s") (auto simp: bind_run_def)

lemma llm_no_project:
  "get_project_id w = None \<or> get_project_id w = Some [] \<Longrightarrow>
   llm_suggestions w files s =
     (Inr [], s\<lparr>trace := trace s @
        [Print ''[INFO] No active GCP project found. Using standard rules.'']\<rparr>)"
  by (auto simp: llm_suggestions_def bind_emit ret_def)

lemma llm_no_library:
  "get_project_id w = Some project_id \<Longrightarrow> project_id \<noteq> [] \<Longrightarrow> \<not> vertexai_importable w \<Longrightarrow>
   llm_suggestions w files s =
     (Inr [], s\<lparr>trace := trace s @
        [Print (''[INFO] '' @ QUOTE @ ''vertexai'' @ QUOTE @ '' library not found. ''
               @ ''Using standard rules. ''
               @ ''(Pip install google-cloud-aiplatform for AI features)'')]\<rparr>)"
  by (simp add: llm_suggestions_def bind_emit ret_def)

lemma llm_import_error:
  "generate_content w = Import_error msg \<Longrightarrow>
   get_llm_ignores w files project_id s =
     (Inr [], s\<lparr>trace := trace s @
        [Print (''[WARN] Failed to use LLM for ignore analysis: '' @ msg)]\<rparr>)"
  by (simp add: get_llm_ignores_def bind_emit ret_def)

lemma llm_call_error:
  "generate_content w = Call_error msg \<Longrightarrow>
   get_llm_ignores w files project_id s =
     (Inr [], s\<lparr>trace := trace s @
        [Print (''Connecting to Vertex AI (Project: '' @ project_id @ '')...''),
         Print (''[WARN] Failed to use LLM for ignore analysis: '' @ msg)]\<rparr>)"
  by (simp add: get_llm_ignores_def bind_emit ret_def)

lemma sync_missing_source:
  "lookup (REPO_CACHE_PATH sc @ rel src_rel) (fs s) = None \<Longrightarrow>
   sync_directory sc src_rel dest_rel x s =
        (Inr (), s\<lparr>trace := trace s @
           [Enter_sync_directory src_rel dest_rel,
            Print (tag sc @ ''Warning: Source '' @ show_path (REPO_CACHE_PATH sc @ rel src_rel)
                   @ '' does not exist in repo. Skipping.'')]\<rparr>)"
  by (simp add: sync_directory_def Let_def bind_emit bind_path_exists log_def emit_def)

lemma prepare_missing_target:
  assumes "lookup p (fs s) = Some (Dir es)" "map_of es c = None"
  shows "prepare_agent w (p @ c # r) s =
        (Inr (), s\<lparr>trace := trace s @
           [Print (''Preparing agent in: '' @ show_path (p @ c # r)),
            Print (''Error: Directory '' @ QUOTE @ show_path (p @ c # r) @ QUOTE
                   @ '' not found.'')]\<rparr>)"
  using missing_in_directory[OF assms, of r]
  by (simp add: prepare_agent_def bind_emit bind_listdir emit_def)

lemma prepare_target_file:
  "lookup agent_dir (fs s) = Some (File y) \<Longrightarrow>
   fst (prepare_agent w agent_dir s) = Inl NotADirectoryError"
  by (simp add: prepare_agent_def bind_emit bind_listdir)

lemma prepare_target_below_file:
  assumes "lookup p (fs s) = Some (File y)" "r \<noteq> []"
  shows "fst (prepare_agent w (p @ r) s) = Inl NotADirectoryError"
  using missing_below_file[OF assms]
  by (simp add: prepare_agent_def bind_emit bind_listdir)

lemma prepare_ignore_is_directory:
  assumes dir: "lookup agent_dir (fs s) = Some (Dir es)"
      and ig: "map_of es ''.ae_ignore'' = Some (Dir x)"
  shows "fst (prepare_agent w agent_dir s) = Inl IsADirectoryError"
proof -
  let ?s0 = "s\<lparr>trace := trace s @ [Print (''Preparing agent in: '' @ show_path agent_dir)]\<rparr>"
  let ?K = "\<lambda>llm_ignores.
           bind_run (ignore_step llm_ignores agent_dir) (\<lambda>_.
           bind_run (requirements_step agent_dir) (\<lambda>_.
           bind_run (env_step agent_dir) (\<lambda>_.
             emit (Print (NL @ ''[SUCCESS] Agent is ready for deployment configuration!'')))))"
  have unfold: "prepare_agent w agent_dir s
                  = bind_run (llm_suggestions w (remdups (map fst es))) ?K ?s0"
    using dir by (simp add: prepare_agent_def bind_emit bind_listdir)
  from llm_suggestions_pure[of w "remdups (map fst es)" ?s0] obtain l
    where l: "fst (llm_suggestions w (remdups (map fst es)) ?s0) = Inr l" by blast
  from bind_llm_suggestions[OF l, of ?s0 "remdups (map fst es)" ?K] obtain s1
    where s1: "fs s1 = fs s"
      and run: "bind_run (llm_suggestions w (remdups (map fst es))) ?K ?s0 = ?K l s1"
    by auto
  have d1: "lookup agent_dir (fs s1) = Some (Dir es)" using dir s1 by simp
  have "fst (ignore_step l agent_dir s1) = Inl IsADirectoryError"
    using ig
    by (simp add: ignore_step_def Let_def bind_path_exists lookup_child[OF d1] bind_assoc
          bind_read_text_child[OF d1])
  then have "fst (?K l s1) = Inl IsADirectoryError" by (rule fst_bind_Inl)
  with unfold run show ?thesis by simp
qed

lemma sync_destination_file:
  assumes "lookup (REPO_CACHE_PATH sc @ rel src_rel) (fs s) \<noteq> None"
      and "lookup (SKILL_ROOT sc @ rel dest_rel) (fs s) = Some (File y)"
  shows "fst (sync_directory sc src_rel dest_rel x s) = Inl NotADirectoryError"
  using assms
  by (simp add: sync_directory_def Let_def bind_emit bind_log bind_path_exists bind_rmtree)

lemma sync_source_file:
  assumes "lookup (REPO_CACHE_PATH sc @ rel src_rel) (fs s) = Some (File y)"
      and "lookup (SKILL_ROOT sc @ rel dest_rel) (fs s) = None"
  shows "fst (sync_directory sc src_rel dest_rel x s) = Inl NotADirectoryError"
  using assms
  by (simp add: sync_directory_def Let_def bind_emit bind_log bind_path_exists bind_ret
        copytree_def)

lemma cache_path_file:
  assumes "lookup (REPO_CACHE_PATH sc) (fs s) = Some (File y)"
  shows "fst (adk_ensure_repo_updated sc sh s) = Inl NotADirectoryError
       \<and> fst (a2ui_ensure_repo_updated sc sh s) = Inl NotADirectoryError"
proof -
  have "lookup (REPO_CACHE_PATH sc @ [''.git'']) (fs s) = None"
    using assms by (simp add: lookup_append)
  with assms show ?thesis
    by (simp add: adk_ensure_repo_updated_def a2ui_ensure_repo_updated_def bind_path_exists
          bind_log bind_rmtree run_command_def bind_emit)
       (simp add: bind_run_def emit_def)
qed

lemma cache_path_blocked:
  assumes "lookup (REPO_CACHE_PATH sc) (fs s) = None"
      and "place (REPO_CACHE_PATH sc) (Dir []) (fs s) = Inl e"
  shows "fst (adk_ensure_repo_updated sc sh s) = Inl e
       \<and> fst (a2ui_ensure_repo_updated sc sh s) = Inl e"
  using assms by (simp add: a2ui_absent adk_absent)

lemma adk_main_ensure_raises:
  assumes "\<And>t. fst (adk_ensure_repo_updated sc sh (s\<lparr>trace := t\<rparr>)) = Inl e"
  shows "fst (adk_main sc sh s) = Inl e"
proof -
  let ?s0 = "s\<lparr>trace := trace s @ [Print (tag sc @ ''Starting Global ADK Skill Self-Update...''),
                               Print (tag sc @ ''Skill Root: '' @ show_path (SKILL_ROOT sc))]\<rparr>"
  from assms[of "trace ?s0"] have "fst (adk_ensure_repo_updated sc sh ?s0) = Inl e" by simp
  then show ?thesis
    by (cases "adk_ensure_repo_updated sc sh ?s0") (simp add: adk_main_unfold)
qed

lemma a2ui_main_ensure_raises:
  assumes "\<And>t. fst (a2ui_ensure_repo_updated sc sh (s\<lparr>trace := t\<rparr>)) = Inl e"
  shows "fst (a2ui_main sc sh s) = Inl e"
proof -
  let ?s0 = "s\<lparr>trace := trace s @ [Print (tag sc @ ''Starting Global A2UI Skill Self-Update...''),
                               Print (tag sc @ ''Skill Root: '' @ show_path (SKILL_ROOT sc))]\<rparr>"
  from assms[of "trace ?s0"] have "fst (a2ui_ensure_repo_updated sc sh ?s0) = Inl e" by simp
  then show ?thesis
    by (cases "a2ui_ensure_repo_updated sc sh ?s0") (simp add: a2ui_main_unfold)
qed

lemma main_cache_path_file:
  assumes "lookup (REPO_CACHE_PATH sc) (fs s) = Some (File y)"
  shows "fst (adk_main sc sh s) = Inl NotADirectoryError
       \<and> fst (a2ui_main sc sh s) = Inl NotADirectoryError"
proof -
  have "lookup (REPO_CACHE_PATH sc) (fs (s\<lparr>trace := t\<rparr>)) = Some (File y)" for t
    using assms by simp
  from cache_path_file[OF this] show ?thesis
    by (auto intro: adk_main_ensure_raises a2ui_main_ensure_raises)
qed

lemma main_cache_path_blocked:
  assumes "lookup (REPO_CACHE_PATH sc) (fs s) = None"
      and "place (REPO_CACHE_PATH sc) (Dir []) (fs s) = Inl e"
  shows "fst (adk_main sc sh s) = Inl e \<and> fst (a2ui_main sc sh s) = Inl e"
proof -
  have "lookup (REPO_CACHE_PATH sc) (fs (s\<lparr>trace := t\<rparr>)) = None"
       "place (REPO_CACHE_PATH sc) (Dir []) (fs (s\<lparr>trace := t\<rparr>)) = Inl e" for t
    using assms by simp_all
  from cache_path_blocked[OF this] show ?thesis
    by (auto intro: adk_main_ensure_raises a2ui_main_ensure_raises)
qed

lemma a2ui_main_destination_file:
  assumes dir: "lookup (REPO_CACHE_PATH sc) (fs s) = Some (Dir es)"
      and src: "lookup (REPO_CACHE_PATH sc @ rel ''specification'')
                  (snd (sh ''git pull'' (REPO_CACHE_PATH sc) (fs s))) \<noteq> None"
      and dst: "lookup (SKILL_ROOT sc @ rel ''specification'')
                  (snd (sh ''git pull'' (REPO_CACHE_PATH sc) (fs s))) = Some (File y)"
  shows "fst (a2ui_main sc sh s) = Inl NotADirectoryError"
proof -
  let ?s0 = "s\<lparr>trace := trace s @ [Print (tag sc @ ''Starting Global A2UI Skill Self-Update...''),
                               Print (tag sc @ ''Skill Root: '' @ show_path (SKILL_ROOT sc))]\<rparr>"
  have d0: "lookup (REPO_CACHE_PATH sc) (fs ?s0) = Some (Dir es)" using dir by simp
  obtain s1 where e: "a2ui_ensure_repo_updated sc sh ?s0 = (Inr True, s1)"
    and f1: "fs s1 = snd (sh ''git pull'' (REPO_CACHE_PATH sc) (fs s))"
    using a2ui_present[OF d0, of sh] by simp
  have "fst (sync_directory sc ''specification'' ''specification'' True s1) = Inl NotADirectoryError"
    using src dst f1 by (intro sync_destination_file) simp_all
  then have "fst (bind_run (for_each (\<lambda>d. sync_directory sc d d True) a2ui_DIRECTORIES_TO_SYNC) (\<lambda>_.
         bind_run (for_each (\<lambda>m. sync_directory sc (fst m) (snd m) True) SAMPLES_MAPPING) (\<lambda>_.
           log sc ''Global Update complete. Skill is synchronized.'')) s1) = Inl NotADirectoryError"
    by (simp add: a2ui_DIRECTORIES_TO_SYNC_def fst_bind_Inl)
  then show ?thesis unfolding a2ui_main_unfold e by simp
qed

lemma adk_main_destination_file:
  assumes valid: "lookup (REPO_CACHE_PATH sc @ [''.git'']) (fs s) \<noteq> None"
      and src: "lookup (REPO_CACHE_PATH sc @ rel ''contributing/samples'')
                  (snd (sh ''git pull'' (REPO_CACHE_PATH sc) (fs s))) \<noteq> None"
      and dst: "lookup (SKILL_ROOT sc @ rel ''examples'')
                  (snd (sh ''git pull'' (REPO_CACHE_PATH sc) (fs s))) = Some (File y)"
  shows "fst (adk_main sc sh s) = Inl NotADirectoryError"
proof -
  let ?s0 = "s\<lparr>trace := trace s @ [Print (tag sc @ ''Starting Global ADK Skill Self-Update...''),
                               Print (tag sc @ ''Skill Root: '' @ show_path (SKILL_ROOT sc))]\<rparr>"
  have v0: "lookup (REPO_CACHE_PATH sc @ [''.git'']) (fs ?s0) \<noteq> None" using valid by simp
  obtain s1 where e: "adk_ensure_repo_updated sc sh ?s0 = (Inr True, s1)"
    and f1: "fs s1 = snd (sh ''git pull'' (REPO_CACHE_PATH sc) (fs s))"
    using adk_valid[OF v0, of sh] by simp
  have "fst (sync_directory sc ''contributing/samples'' ''examples'' True s1) = Inl NotADirectoryError"
    using src dst f1 by (intro sync_destination_file) simp_all
  then have "fst (bind_run (for_each
           (\<lambda>d. sync_directory sc d (if str_in ''samples'' d then ''examples'' else d) True)
           adk_DIRECTORIES_TO_SYNC) (\<lambda>_.
         bind_run (path_exists (REPO_CACHE_PATH sc @ rel ''docs'')) (\<lambda>has_docs.
         bind_run (if has_docs then sync_directory sc ''docs'' ''docs'' True else ret ()) (\<lambda>_.
           log sc ''Global Update complete. Skill is synchronized.''))) s1) = Inl NotADirectoryError"
    by (simp add: adk_DIRECTORIES_TO_SYNC_def fst_bind_Inl)
  then show ?thesis unfolding adk_main_unfold e by simp
qed

lemma managers_pull_failure:
  assumes valid: "lookup (REPO_CACHE_PATH sc @ [''.git'']) (fs s) \<noteq> None"
      and fails: "\<not> fst (sh ''git pull'' (REPO_CACHE_PATH sc) (fs s))"
  shows "adk_ensure_repo_updated sc sh s =
           (Inr True,
            \<lparr>fs = snd (sh ''git pull'' (REPO_CACHE_PATH sc) (fs s)),
             trace = trace s @
               [Print (found_msg sc),
                Check_call ''git pull'' (REPO_CACHE_PATH sc),
                Print (tag sc @ ''Command failed: git pull''),
                Print (tag sc @ ''Git pull failed. Attempting to proceed with existing cache.'')]\<rparr>)
       \<and> a2ui_ensure_repo_updated sc sh s = adk_ensure_repo_updated sc sh s"
proof -
  from git_dir_parent[OF valid] obtain es
    where es: "lookup (REPO_CACHE_PATH sc) (fs s) = Some (Dir es)" by blast
  show ?thesis using fails by (simp add: adk_valid[OF valid] a2ui_present[OF es])
qed

section \<open>The claim about all three scripts\<close>

text \<open>
  C3, as amended. Caught where they occur, each with its message and its fallback value:
  a command that exits with a non-zero status (\<open>run_command\<close> prints and returns
  \<open>False\<close>; after a failed pull both cache managers print the warning and return
  \<open>True\<close>), a missing source of a mapping (a warning, the mapping is skipped), a target
  directory of \<open>prepare_agent\<close> that is not there (a message, nothing written), a missing
  project, a missing library and a failing import or call of the model (a message, no
  suggestion). Not caught, and raised past \<open>main\<close> or \<open>prepare_agent\<close>: a destination
  or a source of a mapping that is a regular file, a cache path that is a regular file
  or cannot be created, a target of \<open>prepare_agent\<close> that is a regular file or lies
  below one, and an ignore file that is a directory.
\<close>

theorem caught_and_uncaught_failures:
  "(\<forall>sc sh cmd cwd s es.
      lookup cwd (fs s) = Some (Dir es) \<longrightarrow>
      run_command sc sh cmd cwd s =
        (Inr (fst (sh cmd cwd (fs s))),
         \<lparr>fs = snd (sh cmd cwd (fs s)),
          trace = trace s @ [Check_call cmd cwd]
            @ (if fst (sh cmd cwd (fs s)) then []
               else [Print (tag sc @ ''Command failed: '' @ cmd)])\<rparr>))
   \<and> (\<forall>sc sh s.
      lookup (REPO_CACHE_PATH sc @ [''.git'']) (fs s) \<noteq> None \<longrightarrow>
      \<not> fst (sh ''git pull'' (REPO_CACHE_PATH sc) (fs s)) \<longrightarrow>
      adk_ensure_repo_updated sc sh s =
        (Inr True,
         \<lparr>fs = snd (sh ''git pull'' (REPO_CACHE_PATH sc) (fs s)),
          trace = trace s @
            [Print (found_msg sc),
             Check_call ''git pull'' (REPO_CACHE_PATH sc),
             Print (tag sc @ ''Command failed: git pull''),
             Print (tag sc @ ''Git pull failed. Attempting to proceed with existing cache.'')]\<rparr>)
      \<and> a2ui_ensure_repo_updated sc sh s = adk_ensure_repo_updated sc sh s)
   \<and> (\<forall>sc src_rel dest_rel x s.
      lookup (REPO_CACHE_PATH sc @ rel src_rel) (fs s) = None \<longrightarrow>
      sync_directory sc src_rel dest_rel x s =
        (Inr (), s\<lparr>trace := trace s @
           [Enter_sync_directory src_rel dest_rel,
            Print (tag sc @ ''Warning: Source '' @ show_path (REPO_CACHE_PATH sc @ rel src_rel)
                   @ '' does not exist in repo. Skipping.'')]\<rparr>))
   \<and> (\<forall>w p c r s es.
      lookup p (fs s) = Some (Dir es) \<longrightarrow> map_of es c = None \<longrightarrow>
      prepare_agent w (p @ c # r) s =
        (Inr (), s\<lparr>trace := trace s @
           [Print (''Preparing agent in: '' @ show_path (p @ c # r)),
            Print (''Error: Directory '' @ QUOTE @ show_path (p @ c # r) @ QUOTE
                   @ '' not found.'')]\<rparr>))
   \<and> (\<forall>w files s.
      get_project_id w = None \<or> get_project_id w = Some [] \<longrightarrow>
      llm_suggestions w files s =
        (Inr [], s\<lparr>trace := trace s @
           [Print ''[INFO] No active GCP project found. Using standard rules.'']\<rparr>))
   \<and> (\<forall>w files s project_id.
      get_project_id w = Some project_id \<longrightarrow> project_id \<noteq> [] \<longrightarrow>
      \<not> vertexai_importable w \<longrightarrow>
      llm_suggestions w files s =
        (Inr [], s\<lparr>trace := trace s @
           [Print (''[INFO] '' @ QUOTE @ ''vertexai'' @ QUOTE @ '' library not found. ''
                   @ ''Using standard rules. ''
                   @ ''(Pip install google-cloud-aiplatform for AI features)'')]\<rparr>))
   \<and> (\<forall>w files project_id s msg.
      generate_content w = Import_error msg \<longrightarrow>
      get_llm_ignores w files project_id s =
        (Inr [], s\<lparr>trace := trace s @
           [Print (''[WARN] Failed to use LLM for ignore analysis: '' @ msg)]\<rparr>))
   \<and> (\<forall>w files project_id s msg.
      generate_content w = Call_error msg \<longrightarrow>
      get_llm_ignores w files project_id s =
        (Inr [], s\<lparr>trace := trace s @
           [Print (''Connecting to Vertex AI (Project: '' @ project_id @ '')...''),
            Print (''[WARN] Failed to use LLM for ignore analysis: '' @ msg)]\<rparr>))
   \<and> (\<forall>sc src_rel dest_rel x s y.
      lookup (REPO_CACHE_PATH sc @ rel src_rel) (fs s) \<noteq> None \<longrightarrow>
      lookup (SKILL_ROOT sc @ rel dest_rel) (fs s) = Some (File y) \<longrightarrow>
      fst (sync_directory sc src_rel dest_rel x s) = Inl NotADirectoryError)
   \<and> (\<forall>sc src_rel dest_rel x s y.
      lookup (REPO_CACHE_PATH sc @ rel src_rel) (fs s) = Some (File y) \<longrightarrow>
      lookup (SKILL_ROOT sc @ rel dest_rel) (fs s) = None \<longrightarrow>
      fst (sync_directory sc src_rel dest_rel x s) = Inl NotADirectoryError)
   \<and> (\<forall>sc sh s es y.
      lookup (REPO_CACHE_PATH sc) (fs s) = Some (Dir es) \<longrightarrow>
      lookup (REPO_CACHE_PATH sc @ rel ''specification'')
        (snd (sh ''git pull'' (REPO_CACHE_PATH sc) (fs s))) \<noteq> None \<longrightarrow>
      lookup (SKILL_ROOT sc @ rel ''specification'')
        (snd (sh ''git pull'' (REPO_CACHE_PATH sc) (fs s))) = Some (File y) \<longrightarrow>
      fst (a2ui_main sc sh s) = Inl NotADirectoryError)
   \<and> (\<forall>sc sh s y.
      lookup (REPO_CACHE_PATH sc @ [''.git'']) (fs s) \<noteq> None \<longrightarrow>
      lookup (REPO_CACHE_PATH sc @ rel ''contributing/samples'')
        (snd (sh ''git pull'' (REPO_CACHE_PATH sc) (fs s))) \<noteq> None \<longrightarrow>
      lookup (SKILL_ROOT sc @ rel ''examples'')
        (snd (sh ''git pull'' (REPO_CACHE_PATH sc) (fs s))) = Some (File y) \<longrightarrow>
      fst (adk_main sc sh s) = Inl NotADirectoryError)
   \<and> (\<forall>sc sh s y.
      lookup (REPO_CACHE_PATH sc) (fs s) = Some (File y) \<longrightarrow>
      fst (adk_main sc sh s) = Inl NotADirectoryError
      \<and> fst (a2ui_main sc sh s) = Inl NotADirectoryError)
   \<and> (\<forall>sc sh s e.
      lookup (REPO_CACHE_PATH sc) (fs s) = None \<longrightarrow>
      place (REPO_CACHE_PATH sc) (Dir []) (fs s) = Inl e \<longrightarrow>
      fst (adk_main sc sh s) = Inl e \<and> fst (a2ui_main sc sh s) = Inl e)
   \<and> (\<forall>w agent_dir s y.
      lookup agent_dir (fs s) = Some (File y) \<longrightarrow>
      fst (prepare_agent w agent_dir s) = Inl NotADirectoryError)
   \<and> (\<forall>w p r s y.
      lookup p (fs s) = Some (File y) \<longrightarrow> r \<noteq> [] \<longrightarrow>
      fst (prepare_agent w (p @ r) s) = Inl NotADirectoryError)
   \<and> (\<forall>w agent_dir s es x.
      lookup agent_dir (fs s) = Some (Dir es) \<longrightarrow> map_of es ''.ae_ignore'' = Some (Dir x) \<longrightarrow>
      fst (prepare_agent w agent_dir s) = Inl IsADirectoryError)"
  apply (intro conjI)
  subgoal using run_command_dir by blast
  subgoal using managers_pull_failure by blast
  subgoal using sync_missing_source by blast
  subgoal using prepare_missing_target by blast
  subgoal using llm_no_project by blast
  subgoal using llm_no_library by blast
  subgoal using llm_import_error by blast
  subgoal using llm_call_error by blast
  subgoal using sync_destination_file by blast
  subgoal using sync_source_file by blast
  subgoal using a2ui_main_destination_file by blast
  subgoal using adk_main_destination_file by blast
  subgoal using main_cache_path_file by blast
  subgoal using main_cache_path_blocked by blast
  subgoal using prepare_target_file by blast
  subgoal using prepare_target_below_file by blast
  subgoal using prepare_ignore_is_directory by blast
  done

theorem caught_and_uncaught_failures_witness:
  "fst (run_command example_script always_fails ''git pull'' [''home''] (start example_fs)) = Inr False
   \<and> fst (adk_ensure_repo_updated example_script always_fails (start example_fs)) = Inr True
   \<and> fst (sync_directory example_script ''missing'' ''missing'' True (start example_fs)) = Inr ()
   \<and> fst (prepare_agent no_llm [''nowhere'', ''agent''] (start example_fs)) = Inr ()
   \<and> fst (llm_suggestions no_llm [] (start example_fs)) = Inr []
   \<and> fst (llm_suggestions \<lparr>gcloud_project = Some ''p'', vertexai_importable = False,
                             generate_content = Call_error []\<rparr> [] (start example_fs)) = Inr []
   \<and> fst (get_llm_ignores \<lparr>gcloud_project = Some ''p'', vertexai_importable = True,
                             generate_content = Import_error ''no module''\<rparr> [] ''p''
            (start example_fs)) = Inr []
   \<and> fst (get_llm_ignores no_llm [] ''p'' (start example_fs)) = Inr []
   \<and> fst (sync_directory example_a2ui ''specification'' ''specification'' True
            (start unsyncable_fs)) = Inl NotADirectoryError
   \<and> fst (sync_directory example_script ''.git/HEAD'' ''head'' True (start example_fs))
       = Inl NotADirectoryError
   \<and> fst (a2ui_main example_a2ui always_succeeds (start unsyncable_fs)) = Inl NotADirectoryError
   \<and> fst (adk_main example_script always_succeeds (start adk_unsyncable_fs)) = Inl NotADirectoryError
   \<and> fst (adk_main example_script always_succeeds (start cache_is_file_fs)) = Inl NotADirectoryError
   \<and> fst (adk_main example_script always_succeeds (start blocked_fs)) = Inl NotADirectoryError
   \<and> fst (prepare_agent no_llm [''skill'', ''specification''] (start unsyncable_fs))
       = Inl NotADirectoryError
   \<and> fst (prepare_agent no_llm ([''skill'', ''specification''] @ [''sub'']) (start unsyncable_fs))
       = Inl NotADirectoryError
   \<and> fst (prepare_agent no_llm [''agent''] (start ignore_is_directory_fs)) = Inl IsADirectoryError"
proof -
  note T = caught_and_uncaught_failures
  note c1 = T[THEN conjunct1, rule_format]
  note c2 = T[THEN conjunct2, THEN conjunct1, rule_format]
  note c3 = T[THEN conjunct2, THEN conjunct2, THEN conjunct1, rule_format]
  note c4 = T[THEN conjunct2, THEN conjunct2, THEN conjunct2, THEN conjunct1, rule_format]
  note c5 = T[THEN conjunct2, THEN conjunct2, THEN conjunct2, THEN conjunct2, THEN conjunct1,
              rule_format]
  note c6 = T[THEN conjunct2, THEN conjunct2, THEN conjunct2, THEN conjunct2, THEN conjunct2,
              THEN conjunct1, rule_format]
  note c7 = T[THEN conjunct2, THEN conjunct2, THEN conjunct2, THEN conjunct2, THEN conjunct2,
              THEN conjunct2, THEN conjunct1, rule_format]
  note c8 = T[THEN conjunct2, THEN conjunct2, THEN conjunct2, THEN conjunct2, THEN conjunct2,
              THEN conjunct2, THEN conjunct2, THEN conjunct1, rule_format]
  note c9 = T[THEN conjunct2, THEN conjunct2, THEN conjunct2, THEN conjunct2, THEN conjunct2,
              THEN conjunct2, THEN conjunct2, THEN conjunct2, THEN conjunct1, rule_format]
  note c10 = T[THEN conjunct2, THEN conjunct2, THEN conjunct2, THEN conjunct2, THEN conjunct2,
              THEN conjunct2, THEN conjunct2, THEN conjunct2, THEN conjunct2, THEN conjunct1,
              rule_format]
  note c11 = T[THEN conjunct2, THEN conjunct2, THEN conjunct2, THEN conjunct2, THEN conjunct2,
              THEN conjunct2, THEN conjunct2, THEN conjunct2, THEN conjunct2, THEN conjunct2,
              THEN conjunct1, rule_format]
  note c12 = T[THEN conjunct2, THEN conjunct2, THEN conjunct2, THEN conjunct2, THEN conjunct2,
              THEN conjunct2, THEN conjunct2, THEN conjunct2, THEN conjunct2, THEN conjunct2,
              THEN conjunct2, THEN conjunct1, rule_format]
  note c13 = T[THEN conjunct2, THEN conjunct2, THEN conjunct2, THEN conjunct2, THEN conjunct2,
              THEN conjunct2, THEN conjunct2, THEN conjunct2, THEN conjunct2, THEN conjunct2,
              THEN conjunct2, THEN conjunct2, THEN conjunct1, rule_format]
  note c14 = T[THEN conjunct2, THEN conjunct2, THEN conjunct2, THEN conjunct2, THEN conjunct2,
              THEN conjunct2, THEN conjunct2, THEN conjunct2, THEN conjunct2, THEN conjunct2,
              THEN conjunct2, THEN conjunct2, THEN conjunct2, THEN conjunct1, rule_format]
  note c15 = T[THEN conjunct2, THEN conjunct2, THEN conjunct2, THEN conjunct2, THEN conjunct2,
              THEN conjunct2, THEN conjunct2, THEN conjunct2, THEN conjunct2, THEN conjunct2,
              THEN conjunct2, THEN conjunct2, THEN conjunct2, THEN conjunct2, THEN conjunct1,
              rule_format]
  note c16 = T[THEN conjunct2, THEN conjunct2, THEN conjunct2, THEN conjunct2, THEN conjunct2,
              THEN conjunct2, THEN conjunct2, THEN conjunct2, THEN conjunct2, THEN conjunct2,
              THEN conjunct2, THEN conjunct2, THEN conjunct2, THEN conjunct2, THEN conjunct2,
              THEN conjunct1, rule_format]
  note c17 = T[THEN conjunct2, THEN conjunct2, THEN conjunct2, THEN conjunct2, THEN conjunct2,
              THEN conjunct2, THEN conjunct2, THEN conjunct2, THEN conjunct2, THEN conjunct2,
              THEN conjunct2, THEN conjunct2, THEN conjunct2, THEN conjunct2, THEN conjunct2,
              THEN conjunct2, rule_format]
  obtain es where h1: "lookup [''home''] (fs (start example_fs)) = Some (Dir es)"
    by (simp add: start_def example_fs_def)
  have w1: "fst (run_command example_script always_fails ''git pull'' [''home''] (start example_fs))
              = Inr False"
    using c1[OF h1, of example_script always_fails "''git pull''"] by (simp add: always_fails_def)
  have h2: "lookup (REPO_CACHE_PATH example_script @ [''.git'']) (fs (start example_fs)) \<noteq> None"
    by code_simp
  have h2': "\<not> fst (always_fails ''git pull'' (REPO_CACHE_PATH example_script)
                        (fs (start example_fs)))"
    by (simp add: always_fails_def)
  have w2: "fst (adk_ensure_repo_updated example_script always_fails (start example_fs)) = Inr True"
    using c2[where sh = always_fails, OF h2 h2'] by simp
  have h3: "lookup (REPO_CACHE_PATH example_script @ rel ''missing'') (fs (start example_fs)) = None"
    by code_simp
  have w3: "fst (sync_directory example_script ''missing'' ''missing'' True (start example_fs))
              = Inr ()"
    using c3[OF h3, of "''missing''" True] by simp
  obtain es0 where h4: "lookup [] (fs (start example_fs)) = Some (Dir es0)"
      and h4': "map_of es0 ''nowhere'' = None"
    by (simp add: start_def example_fs_def)
  have w4: "fst (prepare_agent no_llm [''nowhere'', ''agent''] (start example_fs)) = Inr ()"
    using c4[OF h4 h4', of no_llm "[''agent'']"] by simp
  have h5: "get_project_id no_llm = None \<or> get_project_id no_llm = Some []"
    by (simp add: no_llm_def get_project_id_def)
  have w5: "fst (llm_suggestions no_llm [] (start example_fs)) = Inr []"
    using c5[OF h5, of "[]" "start example_fs"] by simp
  let ?w6 = "\<lparr>gcloud_project = Some ''p'', vertexai_importable = False,
              generate_content = Call_error []\<rparr>"
  have h6: "get_project_id ?w6 = Some ''p''" by code_simp
  have w6: "fst (llm_suggestions ?w6 [] (start example_fs)) = Inr []"
    using c6[OF h6, of "[]" "start example_fs"] by simp
  let ?w7 = "\<lparr>gcloud_project = Some ''p'', vertexai_importable = True,
              generate_content = Import_error ''no module''\<rparr>"
  have h7: "generate_content ?w7 = Import_error ''no module''" by simp
  have w7: "fst (get_llm_ignores ?w7 [] ''p'' (start example_fs)) = Inr []"
    using c7[OF h7, of "[]" "''p''" "start example_fs"] by simp
  have h8: "generate_content no_llm = Call_error ''unreachable''" by (simp add: no_llm_def)
  have w8: "fst (get_llm_ignores no_llm [] ''p'' (start example_fs)) = Inr []"
    using c8[OF h8, of "[]" "''p''" "start example_fs"] by simp
  have h9: "lookup (REPO_CACHE_PATH example_a2ui @ rel ''specification'') (fs (start unsyncable_fs))
              \<noteq> None"
    by code_simp
  have h9': "lookup (SKILL_ROOT example_a2ui @ rel ''specification'') (fs (start unsyncable_fs))
              = Some (File ''x'')"
    by code_simp
  have w9: "fst (sync_directory example_a2ui ''specification'' ''specification'' True
            (start unsyncable_fs)) = Inl NotADirectoryError"
    using c9[OF h9 h9'] by simp
  have h10: "lookup (REPO_CACHE_PATH example_script @ rel ''.git/HEAD'') (fs (start example_fs))
              = Some (File ''ref'')"
    by code_simp
  have h10': "lookup (SKILL_ROOT example_script @ rel ''head'') (fs (start example_fs)) = None"
    by code_simp
  have w10: "fst (sync_directory example_script ''.git/HEAD'' ''head'' True (start example_fs))
       = Inl NotADirectoryError"
    using c10[OF h10 h10'] by simp
  have h11: "lookup (REPO_CACHE_PATH example_a2ui) (fs (start unsyncable_fs))
               = Some (Dir [(''.git'', Dir []), (''specification'', Dir [])])"
    by code_simp
  have h11': "lookup (REPO_CACHE_PATH example_a2ui @ rel ''specification'')
        (snd (always_succeeds ''git pull'' (REPO_CACHE_PATH example_a2ui) (fs (start unsyncable_fs))))
        \<noteq> None"
    using h9 by (simp add: always_succeeds_def)
  have h11'': "lookup (SKILL_ROOT example_a2ui @ rel ''specification'')
        (snd (always_succeeds ''git pull'' (REPO_CACHE_PATH example_a2ui) (fs (start unsyncable_fs))))
        = Some (File ''x'')"
    using h9' by (simp add: always_succeeds_def)
  have w11: "fst (a2ui_main example_a2ui always_succeeds (start unsyncable_fs))
               = Inl NotADirectoryError"
    using c11[where sh = always_succeeds, OF h11 h11' h11''] .
  have h12: "lookup (REPO_CACHE_PATH example_script @ [''.git'']) (fs (start adk_unsyncable_fs))
               \<noteq> None"
    by code_simp
  have h12': "lookup (REPO_CACHE_PATH example_script @ rel ''contributing/samples'')
        (snd (always_succeeds ''git pull'' (REPO_CACHE_PATH example_script)
               (fs (start adk_unsyncable_fs)))) \<noteq> None"
    by code_simp
  have h12'': "lookup (SKILL_ROOT example_script @ rel ''examples'')
        (snd (always_succeeds ''git pull'' (REPO_CACHE_PATH example_script)
               (fs (start adk_unsyncable_fs)))) = Some (File ''x'')"
    by code_simp
  have w12: "fst (adk_main example_script always_succeeds (start adk_unsyncable_fs))
               = Inl NotADirectoryError"
    using c12[where sh = always_succeeds, OF h12 h12' h12''] .
  have h13: "lookup (REPO_CACHE_PATH example_script) (fs (start cache_is_file_fs))
               = Some (File [])"
    by code_simp
  have w13: "fst (adk_main example_script always_succeeds (start cache_is_file_fs))
               = Inl NotADirectoryError"
    using c13[OF h13, of always_succeeds] by simp
  have h14: "lookup (REPO_CACHE_PATH example_script) (fs (start blocked_fs)) = None"
    by code_simp
  have h14': "place (REPO_CACHE_PATH example_script) (Dir []) (fs (start blocked_fs))
                = Inl NotADirectoryError"
    by code_simp
  have w14: "fst (adk_main example_script always_succeeds (start blocked_fs))
               = Inl NotADirectoryError"
    using c14[OF h14 h14', of always_succeeds] by simp
  have h15: "lookup [''skill'', ''specification''] (fs (start unsyncable_fs)) = Some (File ''x'')"
    by code_simp
  have w15: "fst (prepare_agent no_llm [''skill'', ''specification''] (start unsyncable_fs))
       = Inl NotADirectoryError"
    using c15[OF h15, of no_llm] .
  have w16: "fst (prepare_agent no_llm ([''skill'', ''specification''] @ [''sub''])
                   (start unsyncable_fs)) = Inl NotADirectoryError"
    using c16[OF h15, of "[''sub'']" no_llm] by simp
  have h17: "lookup [''agent''] (fs (start ignore_is_directory_fs))
               = Some (Dir [(''.ae_ignore'', Dir [])])"
    by code_simp
  have h17': "map_of [(''.ae_ignore'', Dir [])] ''.ae_ignore'' = Some (Dir [])" by simp
  have w17: "fst (prepare_agent no_llm [''agent''] (start ignore_is_directory_fs))
               = Inl IsADirectoryError"
    using c17[OF h17 h17', of no_llm] .
  from w1 w2 w3 w4 w5 w6 w7 w8 w9 w10 w11 w12 w13 w14 w15 w16 w17 show ?thesis
    by (intro conjI)
qed

text \<open>
  C3 as stated fails: a destination that is a regular file makes \<open>shutil.rmtree\<close>
  raise out of \<open>sync_directory\<close> and \<open>main\<close>, and a target path that is a regular
  file makes \<open>os.listdir\<close> raise out of \<open>prepare_agent\<close>.
\<close>

theorem exception_escapes_main_counterexample:
  "fst (a2ui_main example_a2ui always_succeeds (start unsyncable_fs)) = Inl NotADirectoryError
   \<and> fst (prepare_agent \<lparr>gcloud_project = None, vertexai_importable = False,
                          generate_content = Call_error []\<rparr> [''skill'', ''specification'']
            (start unsyncable_fs)) = Inl NotADirectoryError"
  by code_simp

end
